theory Spec2Isabelle
  imports Main "HOL-Library.Sublist" "HOL-Library.AList"
begin

section \<open>create-era-app: the project scaffolder\<close>

text \<open>
  The repository holds two versions of the generator class \<open>CreateElectronReactApp\<close>:
  \<^item> \<open>src/index.ts\<close>, with a \<open>template\<close> option, plain substring patterns in the Name
    Rewriter and no handler around it;
  \<^item> the version carried at the end of \<open>scripts/setup-template.sh\<close> (lines 44 to 374),
    with the \<open>welcomeKit\<close> option, whole-word patterns, \<open>package.json\<close> in the ignore
    list and a \<open>try\<close>/\<open>catch\<close> around the rewriter.
  Functions that are the same text in both versions are defined once. Where the two
  differ, the definition from \<open>src/index.ts\<close> keeps the source's name and the one from
  the welcome-kit version carries the suffix \<open>_wk\<close>.
\<close>

subsection \<open>Strings\<close>

text \<open>
  JavaScript strings are modelled as \<open>string\<close>; a character outside ASCII is the
  sequence of its UTF-8 bytes. The character classes of the program's regular
  expressions (\<open>[a-z0-9-]\<close>, \<open>\b\<close>) only name ASCII characters, so every such byte
  counts as a non-word character, as its code unit does in JavaScript.
\<close>

definition lower_chars :: string where
  "lower_chars = ''abcdefghijklmnopqrstuvwxyz''"

definition upper_chars :: string where
  "upper_chars = ''ABCDEFGHIJKLMNOPQRSTUVWXYZ''"

definition digit_chars :: string where
  "digit_chars = ''0123456789''"

text \<open>The class \<open>[a-z0-9-]\<close> of the project-name pattern.\<close>

definition is_name_char :: "char \<Rightarrow> bool" where
  "is_name_char c = (c \<in> set (lower_chars @ digit_chars @ ''-''))"

text \<open>The class \<open>\w\<close> = \<open>[A-Za-z0-9_]\<close> that decides the word boundary \<open>\b\<close>.\<close>

definition is_word_char :: "char \<Rightarrow> bool" where
  "is_word_char c = (c \<in> set (lower_chars @ upper_chars @ digit_chars @ ''_''))"

text \<open>
  White space removed by \<open>String.prototype.trim\<close>: tab, line feed, vertical tab, form
  feed, carriage return and space (the ASCII part of the class).
\<close>

definition is_space :: "char \<Rightarrow> bool" where
  "is_space c = (c \<in> set [CHR 0x09, CHR 0x0A, CHR 0x0B, CHR 0x0C, CHR 0x0D, CHR 0x20])"

definition trim :: "string \<Rightarrow> string" where
  "trim s = rev (dropWhile is_space (rev (dropWhile is_space s)))"

text \<open>\<open>/^[a-z0-9-]+$/.test(input)\<close>: without the \<open>m\<close> flag \<open>$\<close> is the end of the input.\<close>

definition valid_name :: "string \<Rightarrow> bool" where
  "valid_name input = (input \<noteq> [] \<and> list_all is_name_char input)"

text \<open>
  The \<open>validate\<close> callback of the name prompt: \<open>None\<close> is the source's \<open>true\<close>, \<open>Some m\<close>
  the message that makes the prompt ask again.
\<close>

definition validate :: "string \<Rightarrow> string option" where
  "validate input =
     (if trim input = [] then Some ''Project name is required''
      else if \<not> valid_name input then Some ''Project name must be lowercase with hyphens only''
      else None)"

text \<open>\<open>toUpperCase\<close> on one ASCII character.\<close>

definition toUpperCase_char :: "char \<Rightarrow> char" where
  "toUpperCase_char c = (case map_of (zip lower_chars upper_chars) c of Some u \<Rightarrow> u | None \<Rightarrow> c)"

text \<open>
  \<open>projectName.charAt(0).toUpperCase() + projectName.slice(1)\<close>; \<open>charAt(0)\<close> of the empty
  string is the empty string.
\<close>

definition capitalized :: "string \<Rightarrow> string" where
  "capitalized projectName =
     (case projectName of [] \<Rightarrow> [] | c # cs \<Rightarrow> toUpperCase_char c # cs)"

subsection \<open>Global regular-expression replacement\<close>

text \<open>
  The patterns of the two Name Rewriters are literal tokens, plain (\<open>/era/g\<close>) or
  between word boundaries with an optional negative lookahead
  (\<open>/\bera\b(?!\.svg)/g\<close>).
\<close>

datatype regex =
    Plain string
  | Whole_word string "string option"

fun token :: "regex \<Rightarrow> string" where
  "token (Plain p) = p"
| "token (Whole_word p la) = p"

text \<open>
  \<open>\b\<close> holds between two positions when exactly one of the neighbouring characters
  is a word character; the outside of the string counts as a non-word character.
\<close>

definition word_boundary :: "string \<Rightarrow> string \<Rightarrow> bool" where
  "word_boundary passed behind =
     ((passed \<noteq> [] \<and> is_word_char (last passed)) \<noteq> (behind \<noteq> [] \<and> is_word_char (hd behind)))"

text \<open>
  \<open>matches_at r passed s\<close>: the pattern matches at the start of \<open>s\<close>, where \<open>passed\<close> is
  the text of the subject in front of \<open>s\<close>.
\<close>

fun matches_at :: "regex \<Rightarrow> string \<Rightarrow> string \<Rightarrow> bool" where
  "matches_at (Plain p) passed s = prefix p s"
| "matches_at (Whole_word p la) passed s =
     (prefix p s \<and> word_boundary passed s
      \<and> word_boundary (passed @ p) (drop (length p) s)
      \<and> (case la of None \<Rightarrow> True | Some x \<Rightarrow> \<not> prefix x (drop (length p) s)))"

text \<open>
  The replacement text of \<open>String.prototype.replace\<close> is a template: \<open>$$\<close> stands for a
  dollar sign, \<open>$&\<close> for the match, \<open>$`\<close> for the text in front of the match and \<open>$'\<close> for
  the text that follows it. The patterns have no capture groups, so \<open>$1\<close> and the like stay
  as they are.
\<close>

fun expand :: "string \<Rightarrow> string \<Rightarrow> string \<Rightarrow> string \<Rightarrow> string" where
  "expand [] m passed behind = []"
| "expand [c] m passed behind = [c]"
| "expand (c # d # rest) m passed behind =
     (if c = CHR ''$'' \<and> d = CHR ''$'' then CHR ''$'' # expand rest m passed behind
      else if c = CHR ''$'' \<and> d = CHR ''&'' then m @ expand rest m passed behind
      else if c = CHR ''$'' \<and> d = CHR 0x60 then passed @ expand rest m passed behind
      else if c = CHR ''$'' \<and> d = CHR 0x27 then behind @ expand rest m passed behind
      else c # expand (d # rest) m passed behind)"

text \<open>
  \<open>subject.replace(regex, to)\<close> with the \<open>g\<close> flag: the subject is scanned from the left,
  a match is replaced and the scan goes on behind it, so what has been put in is not
  scanned again. \<open>passed\<close> is the part of the subject already passed.
\<close>

function replace_from :: "regex \<Rightarrow> string \<Rightarrow> string \<Rightarrow> string \<Rightarrow> string" where
  "replace_from r to passed [] = []"
| "replace_from r to passed (c # cs) =
     (if token r \<noteq> [] \<and> matches_at r passed (c # cs)
      then expand to (token r) passed (drop (length (token r)) (c # cs))
           @ replace_from r to (passed @ token r) (drop (length (token r)) (c # cs))
      else c # replace_from r to (passed @ [c]) cs)"
  by pat_completeness auto
termination
  by (relation "measure (\<lambda>(r, to, passed, s). length s)") auto

definition js_replace :: "regex \<Rightarrow> string \<Rightarrow> string \<Rightarrow> string" where
  "js_replace r to subject = replace_from r to [] subject"

subsection \<open>Paths\<close>

text \<open>
  A path is the list of its segments below the root (POSIX). \<open>path.resolve\<close> and
  \<open>path.join\<close> drop empty segments and \<open>.\<close>, and let \<open>..\<close> remove the segment in front of
  it; \<open>..\<close> at the root stays at the root.
\<close>

type_synonym path = "string list"

fun segments_from :: "string \<Rightarrow> string \<Rightarrow> string list" where
  "segments_from cur [] = (if cur = [] then [] else [cur])"
| "segments_from cur (c # cs) =
     (if c = CHR ''/'' then (if cur = [] then [] else [cur]) @ segments_from [] cs
      else segments_from (cur @ [c]) cs)"

definition segments :: "string \<Rightarrow> string list" where
  "segments s = segments_from [] s"

fun normalize_onto :: "path \<Rightarrow> string list \<Rightarrow> path" where
  "normalize_onto acc [] = acc"
| "normalize_onto acc (s # ss) =
     (if s = ''.'' then normalize_onto acc ss
      else if s = ''..'' then normalize_onto (butlast acc) ss
      else normalize_onto (acc @ [s]) ss)"

text \<open>\<open>path.resolve(from, to)\<close> for an absolute \<open>from\<close>: an absolute \<open>to\<close> replaces it.\<close>

definition path_resolve :: "path \<Rightarrow> string \<Rightarrow> path" where
  "path_resolve from to =
     normalize_onto [] ((if to \<noteq> [] \<and> hd to = CHR ''/'' then [] else from) @ segments to)"

text \<open>\<open>path.join(base, ...parts)\<close> for an absolute \<open>base\<close>.\<close>

definition path_join :: "path \<Rightarrow> string list \<Rightarrow> path" where
  "path_join base parts = normalize_onto [] (base @ concat (map segments parts))"

subsection \<open>JSON\<close>

text \<open>
  The values of \<open>JSON.parse\<close>. An object keeps its members in the order in which
  JavaScript enumerates them. A number keeps the text of its literal, which is what
  \<open>JSON.stringify\<close> prints for the integer literals of a package manifest.
\<close>

datatype json =
    JNull
  | JBool bool
  | JNum string
  | JStr string
  | JArr "json list"
  | JObj "(string \<times> json) list"

definition newline :: char where
  "newline = CHR 0x0A"

definition is_json_space :: "char \<Rightarrow> bool" where
  "is_json_space c = (c \<in> set [CHR 0x20, CHR 0x09, CHR 0x0A, CHR 0x0D])"

definition skip_ws :: "string \<Rightarrow> string" where
  "skip_ws s = dropWhile is_json_space s"

definition hex_chars :: string where
  "hex_chars = ''0123456789abcdef''"

definition hex_digit :: "char \<Rightarrow> int option" where
  "hex_digit c =
     map_of (zip (hex_chars @ ''ABCDEF'') ([0 .. 15] @ [10 .. 15])) c"

fun hex_value :: "int \<Rightarrow> string \<Rightarrow> int option" where
  "hex_value acc [] = Some acc"
| "hex_value acc (c # cs) =
     (case hex_digit c of None \<Rightarrow> None | Some d \<Rightarrow> hex_value (16 * acc + d) cs)"

text \<open>The code unit of a \<open>\uXXXX\<close> escape: four hexadecimal digits at the start of \<open>s\<close>.\<close>

definition hex4 :: "string \<Rightarrow> int option" where
  "hex4 s = (if length s < 4 then None else hex_value 0 (take 4 s))"

definition utf8 :: "int \<Rightarrow> string" where
  "utf8 cp =
     (if cp < 0x80 then [char_of cp]
      else if cp < 0x800 then [char_of (0xC0 + cp div 64), char_of (0x80 + cp mod 64)]
      else if cp < 0x10000 then
        [char_of (0xE0 + cp div 4096), char_of (0x80 + cp div 64 mod 64), char_of (0x80 + cp mod 64)]
      else
        [char_of (0xF0 + cp div 262144), char_of (0x80 + cp div 4096 mod 64),
         char_of (0x80 + cp div 64 mod 64), char_of (0x80 + cp mod 64)])"

definition simple_escape :: "char \<Rightarrow> char option" where
  "simple_escape e =
     map_of [(CHR 0x22, CHR 0x22), (CHR 0x5C, CHR 0x5C), (CHR ''/'', CHR ''/''),
             (CHR ''b'', CHR 0x08), (CHR ''f'', CHR 0x0C), (CHR ''n'', CHR 0x0A),
             (CHR ''r'', CHR 0x0D), (CHR ''t'', CHR 0x09)] e"

text \<open>
  A \<open>\u\<close> escape at the start of \<open>s\<close> (behind the \<open>\u\<close>): the bytes it stands for and how
  many characters of \<open>s\<close> it takes. A high surrogate followed by an escaped low surrogate
  is one code point; a surrogate on its own is written as U+FFFD, as Node does when it
  encodes the string.
\<close>

definition unicode_escape :: "string \<Rightarrow> (string \<times> nat) option" where
  "unicode_escape s =
     (case hex4 s of
        None \<Rightarrow> None
      | Some hi \<Rightarrow>
          if 0xD800 \<le> hi \<and> hi < 0xDC00 then
            (case (if take 2 (drop 4 s) = [CHR 0x5C, CHR ''u''] then hex4 (drop 6 s) else None) of
               Some lo \<Rightarrow>
                 if 0xDC00 \<le> lo \<and> lo < 0xE000
                 then Some (utf8 (0x10000 + (hi - 0xD800) * 1024 + (lo - 0xDC00)), 10)
                 else Some (utf8 0xFFFD, 4)
             | None \<Rightarrow> Some (utf8 0xFFFD, 4))
          else if 0xDC00 \<le> hi \<and> hi < 0xE000 then Some (utf8 0xFFFD, 4)
          else Some (utf8 hi, 4))"

text \<open>The characters of a string literal behind its opening quote, and the rest.\<close>

function parse_chars :: "string \<Rightarrow> (string \<times> string) option" where
  "parse_chars [] = None"
| "parse_chars (c # cs) =
     (if c = CHR 0x22 then Some ([], cs)
      else if c = CHR 0x5C then
        (case cs of
           [] \<Rightarrow> None
         | e # cs' \<Rightarrow>
             if e = CHR ''u'' then
               (case unicode_escape cs' of
                  None \<Rightarrow> None
                | Some (bytes, k) \<Rightarrow>
                    map_option (\<lambda>(str, rest). (bytes @ str, rest)) (parse_chars (drop k cs')))
             else
               (case simple_escape e of
                  None \<Rightarrow> None
                | Some x \<Rightarrow> map_option (\<lambda>(str, rest). (x # str, rest)) (parse_chars cs')))
      else if of_char c < (0x20 :: int) then None
      else map_option (\<lambda>(str, rest). (c # str, rest)) (parse_chars cs))"
  by pat_completeness auto
termination
  by (relation "measure length") auto

definition digits_of :: "string \<Rightarrow> string" where
  "digits_of s = takeWhile (\<lambda>c. c \<in> set digit_chars) s"

text \<open>
  A number literal at the start of \<open>s\<close>:
  \<open>-? (0 | [1-9][0-9]*) (. [0-9]+)? ([eE] [+-]? [0-9]+)?\<close>.
\<close>

definition parse_number :: "string \<Rightarrow> (string \<times> string) option" where
  "parse_number s =
     (let sign = (if take 1 s = ''-'' then ''-'' else []);
          s1 = drop (length sign) s;
          int_part = (if take 1 s1 = ''0'' then ''0'' else digits_of s1);
          s2 = drop (length int_part) s1;
          frac = (if take 1 s2 = ''.'' \<and> digits_of (drop 1 s2) \<noteq> []
                  then ''.'' @ digits_of (drop 1 s2) else []);
          s3 = drop (length frac) s2;
          esign = (if take 1 s3 \<in> {''e'', ''E''}
                   then take 1 s3 @ (if take 1 (drop 1 s3) \<in> {''+'', ''-''} then take 1 (drop 1 s3) else [])
                   else []);
          expo = (if esign \<noteq> [] \<and> digits_of (drop (length esign) s3) \<noteq> []
                  then esign @ digits_of (drop (length esign) s3) else []);
          s4 = drop (length expo) s3
      in if int_part = [] then None else Some (sign @ int_part @ frac @ expo, s4))"

fun decimal_value :: "int \<Rightarrow> string \<Rightarrow> int" where
  "decimal_value acc [] = acc"
| "decimal_value acc (c # cs) =
     decimal_value (10 * acc + (case hex_digit c of Some d \<Rightarrow> d | None \<Rightarrow> 0)) cs"

text \<open>
  A property key that is an array index (a canonical decimal below \<open>2^32 - 1\<close>):
  JavaScript enumerates such keys first, in ascending order.
\<close>

definition is_index_key :: "string \<Rightarrow> bool" where
  "is_index_key k =
     (k \<noteq> [] \<and> list_all (\<lambda>c. c \<in> set digit_chars) k \<and> (k = ''0'' \<or> hd k \<noteq> CHR ''0'')
      \<and> length k \<le> 10 \<and> decimal_value 0 k < 4294967295)"

text \<open>
  \<open>obj[key] = value\<close> on an ordinary object: an existing key keeps its place, a new
  index key goes among the index keys, any other new key goes to the end.
\<close>

definition set_property :: "string \<Rightarrow> json \<Rightarrow> (string \<times> json) list \<Rightarrow> (string \<times> json) list" where
  "set_property k v obj =
     (if k \<in> fst ` set obj then AList.update k v obj
      else if is_index_key k then
        sort_key (\<lambda>m. decimal_value 0 (fst m)) ((k, v) # filter (\<lambda>m. is_index_key (fst m)) obj)
        @ filter (\<lambda>m. \<not> is_index_key (fst m)) obj
      else obj @ [(k, v)])"

definition js_object :: "(string \<times> json) list \<Rightarrow> (string \<times> json) list" where
  "js_object members = foldl (\<lambda>obj m. set_property (fst m) (snd m) obj) [] members"

fun parse_value :: "nat \<Rightarrow> string \<Rightarrow> (json \<times> string) option"
  and parse_elements :: "nat \<Rightarrow> string \<Rightarrow> (json list \<times> string) option"
  and parse_members :: "nat \<Rightarrow> string \<Rightarrow> ((string \<times> json) list \<times> string) option"
where
  "parse_value 0 s = None"
| "parse_value (Suc n) s =
     (case skip_ws s of
        [] \<Rightarrow> None
      | c # cs \<Rightarrow>
          if c = CHR ''{'' then
            (if take 1 (skip_ws cs) = ''}'' then Some (JObj [], drop 1 (skip_ws cs))
             else map_option (\<lambda>(ms, rest). (JObj (js_object ms), rest)) (parse_members n cs))
          else if c = CHR ''['' then
            (if take 1 (skip_ws cs) = '']'' then Some (JArr [], drop 1 (skip_ws cs))
             else map_option (\<lambda>(vs, rest). (JArr vs, rest)) (parse_elements n cs))
          else if c = CHR 0x22 then map_option (\<lambda>(str, rest). (JStr str, rest)) (parse_chars cs)
          else if prefix ''true'' (c # cs) then Some (JBool True, drop 4 (c # cs))
          else if prefix ''false'' (c # cs) then Some (JBool False, drop 5 (c # cs))
          else if prefix ''null'' (c # cs) then Some (JNull, drop 4 (c # cs))
          else map_option (\<lambda>(lit, rest). (JNum lit, rest)) (parse_number (c # cs)))"
| "parse_elements 0 s = None"
| "parse_elements (Suc n) s =
     (case parse_value n s of
        None \<Rightarrow> None
      | Some (v, rest) \<Rightarrow>
          if take 1 (skip_ws rest) = '','' then
            map_option (\<lambda>(vs, rest'). (v # vs, rest')) (parse_elements n (drop 1 (skip_ws rest)))
          else if take 1 (skip_ws rest) = '']'' then Some ([v], drop 1 (skip_ws rest))
          else None)"
| "parse_members 0 s = None"
| "parse_members (Suc n) s =
     (if take 1 (skip_ws s) \<noteq> [CHR 0x22] then None
      else
        (case parse_chars (drop 1 (skip_ws s)) of
           None \<Rightarrow> None
         | Some (k, rest) \<Rightarrow>
             if take 1 (skip_ws rest) \<noteq> '':'' then None
             else
               (case parse_value n (drop 1 (skip_ws rest)) of
                  None \<Rightarrow> None
                | Some (v, rest') \<Rightarrow>
                    if take 1 (skip_ws rest') = '','' then
                      map_option (\<lambda>(ms, rest''). ((k, v) # ms, rest''))
                        (parse_members n (drop 1 (skip_ws rest')))
                    else if take 1 (skip_ws rest') = ''}'' then Some ([(k, v)], drop 1 (skip_ws rest'))
                    else None)))"

text \<open>
  \<open>JSON.parse(text)\<close>: one value with nothing but white space behind it. Every call of
  the parser takes at least one character before it calls itself, so the length of the
  text (and two) is fuel enough; \<open>None\<close> is the \<open>SyntaxError\<close>.
\<close>

definition json_parse :: "string \<Rightarrow> json option" where
  "json_parse text =
     (case parse_value (length text + 2) text of
        None \<Rightarrow> None
      | Some (v, rest) \<Rightarrow> if skip_ws rest = [] then Some v else None)"

text \<open>\<open>stripBom\<close> of jsonfile: a leading U+FEFF is dropped before parsing.\<close>

definition stripBom :: "string \<Rightarrow> string" where
  "stripBom content = (if prefix (utf8 0xFEFF) content then drop 3 content else content)"

definition hex2 :: "int \<Rightarrow> string" where
  "hex2 n = [hex_chars ! nat (n div 16 mod 16), hex_chars ! nat (n mod 16)]"

definition quote_char :: "char \<Rightarrow> string" where
  "quote_char c =
     (if c = CHR 0x22 then [CHR 0x5C, CHR 0x22]
      else if c = CHR 0x5C then [CHR 0x5C, CHR 0x5C]
      else if c = CHR 0x08 then [CHR 0x5C, CHR ''b'']
      else if c = CHR 0x0C then [CHR 0x5C, CHR ''f'']
      else if c = CHR 0x0A then [CHR 0x5C, CHR ''n'']
      else if c = CHR 0x0D then [CHR 0x5C, CHR ''r'']
      else if c = CHR 0x09 then [CHR 0x5C, CHR ''t'']
      else if of_char c < (0x20 :: int) then [CHR 0x5C, CHR ''u'', CHR ''0'', CHR ''0''] @ hex2 (of_char c)
      else [c])"

definition quote :: "string \<Rightarrow> string" where
  "quote s = [CHR 0x22] @ concat (map quote_char s) @ [CHR 0x22]"

fun join_with :: "string \<Rightarrow> string list \<Rightarrow> string" where
  "join_with sep [] = []"
| "join_with sep [x] = x"
| "join_with sep (x # y # ys) = x @ sep @ join_with sep (y # ys)"

text \<open>\<open>JSON.stringify(value, null, 2)\<close> at the indentation \<open>ind\<close>.\<close>

fun stringify :: "nat \<Rightarrow> json \<Rightarrow> string" where
  "stringify ind JNull = ''null''"
| "stringify ind (JBool b) = (if b then ''true'' else ''false'')"
| "stringify ind (JNum lit) = lit"
| "stringify ind (JStr s) = quote s"
| "stringify ind (JArr vs) =
     (if vs = [] then ''[]''
      else ''['' @ [newline]
           @ join_with ('','' @ [newline])
               (map (\<lambda>v. replicate (ind + 2) CHR '' '' @ stringify (ind + 2) v) vs)
           @ [newline] @ replicate ind CHR '' '' @ '']'')"
| "stringify ind (JObj ms) =
     (if ms = [] then ''{}''
      else ''{'' @ [newline]
           @ join_with ('','' @ [newline])
               (map (\<lambda>m. replicate (ind + 2) CHR '' '' @ quote (fst m) @ '': ''
                          @ stringify (ind + 2) (snd m)) ms)
           @ [newline] @ replicate ind CHR '' '' @ ''}'')"

subsection \<open>The file system, the environment and the observable world\<close>

text \<open>
  The file system is an association list from absolute paths to nodes; the first entry
  of a path is the one that counts. A path with entries below it is a directory even
  when it has no entry of its own, and the root is a directory.
\<close>

datatype node = File string | Dir

type_synonym fs = "(path \<times> node) list"

definition entry :: "fs \<Rightarrow> path \<Rightarrow> node option" where
  "entry files p =
     (case map_of files p of
        Some n \<Rightarrow> Some n
      | None \<Rightarrow> if p = [] \<or> list_ex (\<lambda>q. prefix p q \<and> q \<noteq> p) (map fst files) then Some Dir else None)"

fun is_file :: "node option \<Rightarrow> bool" where
  "is_file (Some (File content)) = True"
| "is_file other = False"

text \<open>The steps of a run at which the environment can make an operation fail.\<close>

datatype step =
    ReadVersion | Copy | Remove | ReadApp | WriteApp | ReadManifest | WriteManifest | Glob | Replace

datatype error =
    ENOENT path
  | EISDIR path
  | ENOTDIR path
  | CopyIntoItself
  | SyntaxError
  | TypeError
  | NoFilesMatch path
  | Failure step
  | PromptClosed

text \<open>
  What a run is given. \<open>typed\<close> are the lines entered at the name prompt, the \<open>answer\<close>
  fields what the user picks at the other prompts. \<open>fault s = Some done\<close> makes the
  operation of step \<open>s\<close> fail (permissions, a full disk, an error of the library), for
  any reason; an operation on many files has by then handled the paths that satisfy
  \<open>done\<close>. \<open>magic files p\<close> is what the glob of replace-in-file finds for a path \<open>p\<close>
  that has characters with a meaning in a glob pattern. \<open>exec command dir files\<close> is
  \<open>execSync\<close>: whether the child process succeeded, and the file system it leaves.
\<close>

record env =
  cwd :: path
  dirname :: path
  typed :: "string list"
  answer_template :: string
  answer_git :: bool
  answer_install :: bool
  answer_packageManager :: string
  answer_welcomeKit :: bool
  fault :: "step \<Rightarrow> (path \<Rightarrow> bool) option"
  magic :: "fs \<Rightarrow> path \<Rightarrow> path list"
  exec :: "string \<Rightarrow> path \<Rightarrow> fs \<Rightarrow> bool \<times> fs"

text \<open>
  What a run leaves to observe: the file system, the console (without colours and
  symbols) and the child processes started, in order.
\<close>

datatype event =
    Log string
  | Log_error string error
  | Log_warn string error
  | Spinner_start string
  | Spinner_succeed string
  | Spinner_fail string

record world =
  files :: fs
  console :: "event list"
  spawned :: "(string \<times> path) list"

definition say :: "event \<Rightarrow> world \<Rightarrow> world" where
  "say ev w = w\<lparr>console := console w @ [ev]\<rparr>"

subsection \<open>fs-extra, glob and replace-in-file\<close>

definition pathExists :: "fs \<Rightarrow> path \<Rightarrow> bool" where
  "pathExists fls p = (entry fls p \<noteq> None)"

definition readFile :: "env \<Rightarrow> step \<Rightarrow> fs \<Rightarrow> path \<Rightarrow> error + string" where
  "readFile e st fls p =
     (if fault e st \<noteq> None then Inl (Failure st)
      else case entry fls p of
             None \<Rightarrow> Inl (ENOENT p)
           | Some Dir \<Rightarrow> Inl (EISDIR p)
           | Some (File content) \<Rightarrow> Inr content)"

text \<open>A failed write leaves the file system as it was.\<close>

definition writeFile :: "env \<Rightarrow> step \<Rightarrow> fs \<Rightarrow> path \<Rightarrow> string \<Rightarrow> error + fs" where
  "writeFile e st fls p content =
     (if fault e st \<noteq> None then Inl (Failure st)
      else if entry fls p = Some Dir then Inl (EISDIR p)
      else if entry fls (butlast p) \<noteq> Some Dir then Inl (ENOENT p)
      else Inr (AList.update p (File content) fls))"

definition readJson :: "env \<Rightarrow> step \<Rightarrow> fs \<Rightarrow> path \<Rightarrow> error + json" where
  "readJson e st fls p =
     (case readFile e st fls p of
        Inl err \<Rightarrow> Inl err
      | Inr content \<Rightarrow>
          (case json_parse (stripBom content) of None \<Rightarrow> Inl SyntaxError | Some v \<Rightarrow> Inr v))"

text \<open>\<open>fs.writeJson(file, obj, { spaces: 2 })\<close>: jsonfile ends the text with a line feed.\<close>

definition writeJson :: "env \<Rightarrow> step \<Rightarrow> fs \<Rightarrow> path \<Rightarrow> json \<Rightarrow> error + fs" where
  "writeJson e st fls p obj = writeFile e st fls p (stringify 0 obj @ [newline])"

definition write_all :: "(path \<times> node) list \<Rightarrow> fs \<Rightarrow> fs" where
  "write_all new fls = fold (\<lambda>pn. AList.update (fst pn) (snd pn)) new fls"

text \<open>The entries at and below \<open>src\<close>, each path once.\<close>

definition tree :: "fs \<Rightarrow> path \<Rightarrow> (path \<times> node) list" where
  "tree fls src = filter (\<lambda>pn. prefix src (fst pn)) (AList.clearjunk fls)"

text \<open>The directories that \<open>mkdirs\<close> has to make above \<open>dest\<close>.\<close>

definition missing_parents :: "fs \<Rightarrow> path \<Rightarrow> (path \<times> node) list" where
  "missing_parents fls dest =
     map (\<lambda>q. (q, Dir)) (filter (\<lambda>q. entry fls q = None) (map (\<lambda>k. take k dest) [1 ..< length dest]))"

text \<open>
  \<open>fs.copy(src, dest)\<close>: the source has to exist and the destination must not lie in it;
  the parents of the destination are made, then every entry of the source tree is
  written below the destination. The error, if any, comes with the file system as the
  failed copy leaves it.
\<close>

definition copy :: "env \<Rightarrow> fs \<Rightarrow> path \<Rightarrow> path \<Rightarrow> error option \<times> fs" where
  "copy e fls src dest =
     (if entry fls src = None then (Some (ENOENT src), fls)
      else if prefix src dest then (Some CopyIntoItself, fls)
      else if list_ex (\<lambda>k. is_file (entry fls (take k dest))) [1 ..< length dest]
        then (Some (ENOTDIR dest), fls)
      else
        let new = missing_parents fls dest
                  @ (if entry fls src = Some Dir then [(dest, Dir)] else [])
                  @ map (\<lambda>pn. (dest @ drop (length src) (fst pn), snd pn)) (tree fls src)
        in case fault e Copy of
             None \<Rightarrow> (None, write_all new fls)
           | Some done \<Rightarrow> (Some (Failure Copy), write_all (filter (\<lambda>pn. done (fst pn)) new) fls))"

text \<open>\<open>fs.remove(p)\<close>: everything at and below \<open>p\<close> goes; nothing there is no error.\<close>

definition remove :: "env \<Rightarrow> fs \<Rightarrow> path \<Rightarrow> error option \<times> fs" where
  "remove e fls p =
     (case fault e Remove of
        None \<Rightarrow> (None, filter (\<lambda>qn. \<not> prefix p (fst qn)) fls)
      | Some done \<Rightarrow> (Some (Failure Remove), filter (\<lambda>qn. \<not> (prefix p (fst qn) \<and> done (fst qn))) fls))"

text \<open>
  One segment against one segment of a glob pattern (\<open>*\<close> is any run of characters), and
  a path against a pattern (\<open>**\<close> is any run of segments). The patterns of the program
  use nothing else.
\<close>

fun segment_match :: "string \<Rightarrow> string \<Rightarrow> bool" where
  "segment_match [] s = (s = [])"
| "segment_match (g # gs) [] = (g = CHR ''*'' \<and> segment_match gs [])"
| "segment_match (g # gs) (c # cs) =
     (if g = CHR ''*'' then segment_match gs (c # cs) \<or> segment_match (g # gs) cs
      else g = c \<and> segment_match gs cs)"

fun path_match :: "string list \<Rightarrow> path \<Rightarrow> bool" where
  "path_match [] rel = (rel = [])"
| "path_match (g # gs) [] = (g = ''**'' \<and> path_match gs [])"
| "path_match (g # gs) (x # xs) =
     (if g = ''**'' then path_match gs (x # xs) \<or> path_match (g # gs) xs
      else segment_match g x \<and> path_match gs xs)"

definition minimatch :: "string \<Rightarrow> path \<Rightarrow> bool" where
  "minimatch pattern rel = path_match (segments pattern) rel"

text \<open>A pattern of the \<open>ignore\<close> option is matched with \<open>dot: true\<close>.\<close>

definition ignored :: "string list \<Rightarrow> path \<Rightarrow> bool" where
  "ignored ignore rel = list_ex (\<lambda>pattern. minimatch pattern rel) ignore"

text \<open>The pattern itself is matched with \<open>dot: false\<close>: no segment may start with a dot.\<close>

definition hidden :: "path \<Rightarrow> bool" where
  "hidden rel = list_ex (\<lambda>seg. take 1 seg = ''.'') rel"

text \<open>
  The paths below \<open>dir\<close> that exist: those of the entries and the directories above
  them, each once.
\<close>

definition below :: "fs \<Rightarrow> path \<Rightarrow> path list" where
  "below fls dir =
     remdups (concat (map (\<lambda>q. map (\<lambda>k. take k q) [Suc (length dir) ..< Suc (length q)])
                        (filter (prefix dir) (map fst fls))))"

text \<open>
  \<open>glob(pattern, { cwd, ignore, nodir })\<close>: the paths below \<open>cwd\<close>, relative to it, that
  match the pattern and no ignore pattern, files and directories alike; with \<open>nodir\<close>
  only those of files.
\<close>

definition glob :: "env \<Rightarrow> fs \<Rightarrow> string \<Rightarrow> path \<Rightarrow> string list \<Rightarrow> bool \<Rightarrow> error + path list" where
  "glob e fls pattern dir ignore nodir =
     (if fault e Glob \<noteq> None then Inl (Failure Glob)
      else Inr (filter (\<lambda>rel. minimatch pattern rel
                             \<and> \<not> hidden rel
                             \<and> \<not> ignored ignore rel
                             \<and> (nodir \<longrightarrow> is_file (entry fls (dir @ rel))))
                 (map (drop (length dir)) (below fls dir))))"

text \<open>
  replace-in-file takes every path of its \<open>files\<close> for a glob pattern and looks it up with
  \<open>nodir\<close>. A path made of segments of letters, digits, \<open>.\<close>, \<open>_\<close> and \<open>-\<close> has no
  character with a meaning in a pattern: it finds itself when it is a file, and nothing
  when it is a directory or does not exist. What any other path finds is up to the
  library (\<open>magic\<close>); it finds files only.
\<close>

definition literal_char :: "char \<Rightarrow> bool" where
  "literal_char c = (c \<in> set (lower_chars @ upper_chars @ digit_chars @ ''._-''))"

definition literal_path :: "path \<Rightarrow> bool" where
  "literal_path p =
     list_all (\<lambda>seg. seg \<noteq> [] \<and> seg \<noteq> ''.'' \<and> seg \<noteq> ''..'' \<and> list_all literal_char seg) p"

definition globAsync :: "env \<Rightarrow> fs \<Rightarrow> path \<Rightarrow> path list" where
  "globAsync e fls pattern =
     filter (\<lambda>q. is_file (entry fls q)) (if literal_path pattern then [pattern] else magic e fls pattern)"

text \<open>
  \<open>getPathsAsync\<close>: every pattern is looked up; one that finds no file rejects the call
  with \<open>No files match the pattern\<close>, before any file is read.
\<close>

definition getPathsAsync :: "env \<Rightarrow> fs \<Rightarrow> path list \<Rightarrow> error + path list" where
  "getPathsAsync e fls patterns =
     (case filter (\<lambda>pattern. globAsync e fls pattern = []) patterns of
        [] \<Rightarrow> Inr (concat (map (globAsync e fls) patterns))
      | pattern # others \<Rightarrow> Inl (NoFilesMatch pattern))"

text \<open>
  For each pair of \<open>from\<close> and \<open>to\<close> in turn,
  \<open>contents = contents.replace(from[i], to[i])\<close>.
\<close>

definition makeReplacements :: "regex list \<Rightarrow> string list \<Rightarrow> string \<Rightarrow> string" where
  "makeReplacements from to contents = fold (\<lambda>ft c. js_replace (fst ft) (snd ft) c) (zip from to) contents"

text \<open>One file is read, rewritten and written back; reading what is not a file fails.\<close>

definition replaceInOne :: "regex list \<Rightarrow> string list \<Rightarrow> path \<Rightarrow> fs \<Rightarrow> error + fs" where
  "replaceInOne from to p fls =
     (case entry fls p of
        Some (File contents) \<Rightarrow> Inr (AList.update p (File (makeReplacements from to contents)) fls)
      | Some Dir \<Rightarrow> Inl (EISDIR p)
      | None \<Rightarrow> Inl (ENOENT p))"

text \<open>
  Every file found is handled, also when another one has failed; the error is that of
  the first file that failed.
\<close>

fun replaceAll :: "regex list \<Rightarrow> string list \<Rightarrow> path list \<Rightarrow> fs \<Rightarrow> error option \<times> fs" where
  "replaceAll from to [] fls = (None, fls)"
| "replaceAll from to (p # ps) fls =
     (case replaceInOne from to p fls of
        Inl err \<Rightarrow> (Some err, snd (replaceAll from to ps fls))
      | Inr fls' \<Rightarrow> replaceAll from to ps fls')"

text \<open>
  \<open>replace({ files, from, to })\<close>: the paths are looked up, then every file found is
  rewritten. The error, if any, comes with the file system as the failed call leaves it.
\<close>

definition replaceInFile :: "env \<Rightarrow> fs \<Rightarrow> path list \<Rightarrow> regex list \<Rightarrow> string list \<Rightarrow> error option \<times> fs" where
  "replaceInFile e fls paths from to =
     (case getPathsAsync e fls paths of
        Inl err \<Rightarrow> (Some err, fls)
      | Inr found \<Rightarrow>
          (case fault e Replace of
             None \<Rightarrow> replaceAll from to found fls
           | Some done \<Rightarrow> (Some (Failure Replace), snd (replaceAll from to (filter done found) fls))))"

subsection \<open>getInstallCommand\<close>

text \<open>
  \<^verbatim>\<open>switch (packageManager) { case 'yarn': return 'yarn install'; case 'pnpm': ...;
  case 'bun': ...; default: return 'npm install'; }\<close>
\<close>

definition getInstallCommand :: "string \<Rightarrow> string" where
  "getInstallCommand packageManager =
     (if packageManager = ''yarn'' then ''yarn install''
      else if packageManager = ''pnpm'' then ''pnpm install''
      else if packageManager = ''bun'' then ''bun install''
      else ''npm install'')"

subsection \<open>Options and configuration\<close>

text \<open>
  \<open>CreateOptions\<close> as commander fills it: a field that is \<open>None\<close> is \<open>undefined\<close>.
  \<open>ProjectConfig\<close> has the fields \<open>git\<close>, \<open>install\<close> and \<open>packageManager\<close> in both versions;
  \<open>src/index.ts\<close> adds \<open>template\<close>, the welcome-kit version adds \<open>welcomeKit\<close>.
\<close>

record CreateOptions =
  opt_name :: "string option"
  opt_template :: "string option"
  opt_yes :: "bool option"
  opt_git :: "bool option"
  opt_install :: "bool option"

record Config =
  git :: bool
  install :: bool
  packageManager :: string

record ProjectConfig = Config +
  template :: string

record ProjectConfig_wk = Config +
  welcomeKit :: bool

subsection \<open>getProjectName\<close>

text \<open>
  The input prompt of inquirer: an empty line stands for the default
  \<open>my-electron-app\<close>; an answer that \<open>validate\<close> rejects is asked for again. A prompt
  that is closed before a valid answer rejects its promise.
\<close>

fun prompt_name :: "string list \<Rightarrow> string option" where
  "prompt_name [] = None"
| "prompt_name (line # later) =
     (if validate (if line = [] then ''my-electron-app'' else line) = None
      then Some (if line = [] then ''my-electron-app'' else line)
      else prompt_name later)"

definition getProjectName :: "env \<Rightarrow> error + string" where
  "getProjectName e = (case prompt_name (typed e) of None \<Rightarrow> Inl PromptClosed | Some name \<Rightarrow> Inr name)"

subsection \<open>getConfig\<close>

text \<open>
  With \<open>--yes\<close> the configuration comes from the options alone. Otherwise it is what
  the user answers; the package manager is only asked for when dependencies are to be
  installed, and is \<open>undefined\<close> otherwise (kept as the text a template literal prints).
\<close>

definition getConfig :: "env \<Rightarrow> CreateOptions \<Rightarrow> ProjectConfig" where
  "getConfig e options =
     (if opt_yes options = Some True then
        \<lparr>git = (opt_git options \<noteq> Some False),
         install = (opt_install options \<noteq> Some False),
         packageManager = ''npm'',
         template = (case opt_template options of
                       None \<Rightarrow> ''default''
                     | Some t \<Rightarrow> if t = [] then ''default'' else t)\<rparr>
      else
        \<lparr>git = answer_git e,
         install = answer_install e,
         packageManager = (if answer_install e then answer_packageManager e else ''undefined''),
         template = answer_template e\<rparr>)"

definition getConfig_wk :: "env \<Rightarrow> CreateOptions \<Rightarrow> ProjectConfig_wk" where
  "getConfig_wk e options =
     (if opt_yes options = Some True then
        \<lparr>git = (opt_git options \<noteq> Some False),
         install = (opt_install options \<noteq> Some False),
         packageManager = ''npm'',
         welcomeKit = True\<rparr>
      else
        \<lparr>git = answer_git e,
         install = answer_install e,
         packageManager = (if answer_install e then answer_packageManager e else ''undefined''),
         welcomeKit = answer_welcomeKit e\<rparr>)"

subsection \<open>updatePackageJson\<close>

text \<open>
  \<open>packageJson[key] = value\<close> in strict mode (the file is an ES module): on an object
  the property is set; on an array it is set too, but \<open>JSON.stringify\<close> does not print
  it; on \<open>null\<close> and on a primitive value the assignment throws a \<open>TypeError\<close>.
\<close>

fun assign :: "json \<Rightarrow> string \<Rightarrow> json \<Rightarrow> error + json" where
  "assign (JObj ms) k v = Inr (JObj (set_property k v ms))"
| "assign (JArr vs) k v = Inr (JArr vs)"
| "assign other k v = Inl TypeError"

definition updatePackageJson :: "env \<Rightarrow> fs \<Rightarrow> path \<Rightarrow> string \<Rightarrow> error + fs" where
  "updatePackageJson e fls projectPath projectName =
     (case readJson e ReadManifest fls (path_join projectPath [''package.json'']) of
        Inl err \<Rightarrow> Inl err
      | Inr packageJson \<Rightarrow>
          (case assign packageJson ''name'' (JStr projectName) of
             Inl err \<Rightarrow> Inl err
           | Inr named \<Rightarrow>
               (case assign named ''description''
                       (JStr (''A modern Electron application built with '' @ projectName)) of
                  Inl err \<Rightarrow> Inl err
                | Inr described \<Rightarrow>
                    writeJson e WriteManifest fls (path_join projectPath [''package.json'']) described)))"

subsection \<open>replaceProjectName\<close>

text \<open>
  \<open>src/index.ts\<close>: plain patterns, directories in the list, the manifest not ignored, no
  handler. The error, if any, comes with the file system as it stands.
\<close>

text \<open>
  The \<open>from\<close> and \<open>to\<close> of the options given to \<open>replace\<close>: the patterns of
  \<open>src/index.ts\<close>, those of the welcome-kit version, and the replacements, which are
  the same in both.
\<close>

definition from_patterns :: "regex list" where
  "from_patterns = [Plain ''era'', Plain ''ElectronReactApp'', Plain ''electron-react-app'']"

definition from_patterns_wk :: "regex list" where
  "from_patterns_wk =
     [Whole_word ''era'' (Some ''.svg''), Whole_word ''ElectronReactApp'' None,
      Whole_word ''electron-react-app'' None]"

definition to_replacements :: "string \<Rightarrow> string list" where
  "to_replacements projectName = [projectName, capitalized projectName, projectName]"

definition replaceProjectName :: "env \<Rightarrow> fs \<Rightarrow> path \<Rightarrow> string \<Rightarrow> error option \<times> fs" where
  "replaceProjectName e fls projectPath projectName =
     (case glob e fls ''**/*'' projectPath
             [''node_modules/**'', ''dist/**'', ''out/**'', ''.git/**'', ''*.log''] False of
        Inl err \<Rightarrow> (Some err, fls)
      | Inr found \<Rightarrow>
          replaceInFile e fls (map (\<lambda>file. projectPath @ file) found)
            from_patterns (to_replacements projectName))"

text \<open>
  The welcome-kit version: whole-word patterns, \<open>era\<close> not in front of \<open>.svg\<close>, files
  only, the manifest ignored; whatever is thrown is caught and reported as a warning.
\<close>

definition replaceProjectName_wk :: "env \<Rightarrow> world \<Rightarrow> path \<Rightarrow> string \<Rightarrow> world" where
  "replaceProjectName_wk e w projectPath projectName =
     (case glob e (files w) ''**/*'' projectPath
             [''node_modules/**'', ''dist/**'', ''out/**'', ''.git/**'', ''*.log'', ''package.json'']
             True of
        Inl err \<Rightarrow> say (Log_warn ''Warning: Could not replace project names in files:'' err) w
      | Inr found \<Rightarrow>
          if length found > 0 then
            (case replaceInFile e (files w) (map (\<lambda>file. projectPath @ file) found)
                    from_patterns_wk (to_replacements projectName) of
               (Some err, fls) \<Rightarrow>
                 say (Log_warn ''Warning: Could not replace project names in files:'' err)
                   (w\<lparr>files := fls\<rparr>)
             | (None, fls) \<Rightarrow> w\<lparr>files := fls\<rparr>)
          else w)"

subsection \<open>removeWelcomeKit\<close>

definition newAppContent :: string where
  \<open>newAppContent = join_with [newline]
     [''import '' @ [CHR 0x27] @ ''./styles/app.css'' @ [CHR 0x27],
      [],
      ''export default function App() {'',
      ''  return ('',
      ''    <div className="flex items-center justify-center min-h-screen bg-background">'',
      ''      <div className="text-center">'',
      ''        <h1 className="text-4xl font-bold text-foreground mb-4">'',
      ''          Welcome to your Electron App!'',
      ''        </h1>'',
      ''        <p className="text-muted-foreground">'',
      ''          Start building your desktop application.'',
      ''        </p>'',
      ''      </div>'',
      ''    </div>'',
      ''  )'',
      ''}'']\<close>

text \<open>
  The directory of the welcome kit is removed, \<open>app/app.tsx\<close> is read (what is read is
  not used) and overwritten with \<open>newAppContent\<close>. An error at any of the three is
  caught: the rest of the function is skipped and a warning is printed.
\<close>

definition removeWelcomeKit :: "env \<Rightarrow> world \<Rightarrow> path \<Rightarrow> world" where
  "removeWelcomeKit e w projectPath =
     (case remove e (files w) (path_join projectPath [''app'', ''components'', ''welcome'']) of
        (Some err, fls) \<Rightarrow>
          say (Log_warn ''Warning: Could not remove welcome kit:'' err) (w\<lparr>files := fls\<rparr>)
      | (None, fls) \<Rightarrow>
          (case readFile e ReadApp fls (path_join projectPath [''app'', ''app.tsx'']) of
             Inl err \<Rightarrow>
               say (Log_warn ''Warning: Could not remove welcome kit:'' err) (w\<lparr>files := fls\<rparr>)
           | Inr appContent \<Rightarrow>
               (case writeFile e WriteApp fls (path_join projectPath [''app'', ''app.tsx''])
                       newAppContent of
                  Inl err \<Rightarrow>
                    say (Log_warn ''Warning: Could not remove welcome kit:'' err) (w\<lparr>files := fls\<rparr>)
                | Inr fls' \<Rightarrow> w\<lparr>files := fls'\<rparr>)))"

subsection \<open>generateProject\<close>

text \<open>
  Copy the template, update the manifest, rewrite the names. An error of any of the
  three stops the spinner with a failure and is thrown again; the files written so far
  stay.
\<close>

definition generateProject ::
  "env \<Rightarrow> world \<Rightarrow> string \<Rightarrow> path \<Rightarrow> ProjectConfig \<Rightarrow> error option \<times> world" where
  "generateProject e w projectName projectPath config =
     (let w1 = say (Spinner_start ''Creating project...'') w in
      case copy e (files w1) (path_join (dirname e) [''..'', ''template'']) projectPath of
        (Some err, fls) \<Rightarrow> (Some err, say (Spinner_fail ''Failed to create project'') (w1\<lparr>files := fls\<rparr>))
      | (None, fls) \<Rightarrow>
          (case updatePackageJson e fls projectPath projectName of
             Inl err \<Rightarrow> (Some err, say (Spinner_fail ''Failed to create project'') (w1\<lparr>files := fls\<rparr>))
           | Inr fls' \<Rightarrow>
               (case replaceProjectName e fls' projectPath projectName of
                  (Some err, fls'') \<Rightarrow>
                    (Some err, say (Spinner_fail ''Failed to create project'') (w1\<lparr>files := fls''\<rparr>))
                | (None, fls'') \<Rightarrow>
                    (None, say (Spinner_succeed ''Project created successfully!'') (w1\<lparr>files := fls''\<rparr>)))))"

definition generateProject_wk ::
  "env \<Rightarrow> world \<Rightarrow> string \<Rightarrow> path \<Rightarrow> ProjectConfig_wk \<Rightarrow> error option \<times> world" where
  "generateProject_wk e w projectName projectPath config =
     (let w1 = say (Spinner_start ''Creating project...'') w in
      case copy e (files w1) (path_join (dirname e) [''template'']) projectPath of
        (Some err, fls) \<Rightarrow> (Some err, say (Spinner_fail ''Failed to create project'') (w1\<lparr>files := fls\<rparr>))
      | (None, fls) \<Rightarrow>
          (let w2 = (if \<not> welcomeKit config then removeWelcomeKit e (w1\<lparr>files := fls\<rparr>) projectPath
                     else w1\<lparr>files := fls\<rparr>)
           in case updatePackageJson e (files w2) projectPath projectName of
                Inl err \<Rightarrow> (Some err, say (Spinner_fail ''Failed to create project'') w2)
              | Inr fls' \<Rightarrow>
                  (None, say (Spinner_succeed ''Project created successfully!'')
                           (replaceProjectName_wk e (w2\<lparr>files := fls'\<rparr>) projectPath projectName))))"

subsection \<open>postCreate\<close>

text \<open>\<open>execSync(command, { cwd })\<close>: the child runs; \<open>False\<close> is the exception of a failed child.\<close>

definition execSync :: "env \<Rightarrow> string \<Rightarrow> path \<Rightarrow> world \<Rightarrow> bool \<times> world" where
  "execSync e command dir w =
     (fst (exec e command dir (files w)),
      w\<lparr>files := snd (exec e command dir (files w)), spawned := spawned w @ [(command, dir)]\<rparr>)"

definition postCreate :: "env \<Rightarrow> world \<Rightarrow> path \<Rightarrow> 'a Config_scheme \<Rightarrow> world" where
  "postCreate e w projectPath config =
     (let w1 =
        (if git config then
           (case execSync e ''git init'' projectPath (say (Spinner_start ''Initializing git repository...'') w) of
              (True, w') \<Rightarrow> say (Spinner_succeed ''Git repository initialized!'') w'
            | (False, w') \<Rightarrow> say (Spinner_fail ''Failed to initialize git repository'') w')
         else w)
      in
        if install config then
          (case execSync e (getInstallCommand (packageManager config)) projectPath
                  (say (Spinner_start (''Installing dependencies with '' @ packageManager config @ ''...'')) w1) of
             (True, w') \<Rightarrow> say (Spinner_succeed ''Dependencies installed successfully!'') w'
           | (False, w') \<Rightarrow> say (Spinner_fail ''Failed to install dependencies'') w')
        else w1)"

subsection \<open>showSuccessMessage\<close>

definition showSuccessMessage :: "world \<Rightarrow> string \<Rightarrow> 'a Config_scheme \<Rightarrow> world" where
  "showSuccessMessage w projectName config =
     w\<lparr>console := console w
          @ [Log ''Project created successfully!'', Log ''Next steps:'', Log (''  cd '' @ projectName)]
          @ (if \<not> install config then [Log (''  '' @ packageManager config @ '' install'')] else [])
          @ [Log ''  npm run dev'', Log ''Documentation:'',
             Log ''  https://github.com/guasam/electron-react-app'', Log ''Happy coding!'']\<rparr>"

subsection \<open>createApp\<close>

text \<open>
  The result of a run is the exit status of the process and the world it leaves.
  \<open>name || (await this.getProjectName())\<close>: a missing or empty argument asks the prompt.
  \<open>process.exit(1)\<close> ends the run where it stands; a run that reaches its end exits
  with status 0.
\<close>

definition projectName_of :: "env \<Rightarrow> string option \<Rightarrow> error + string" where
  "projectName_of e name =
     (case name of
        None \<Rightarrow> getProjectName e
      | Some n \<Rightarrow> if n = [] then getProjectName e else Inr n)"

definition createApp :: "env \<Rightarrow> world \<Rightarrow> string option \<Rightarrow> CreateOptions \<Rightarrow> nat \<times> world" where
  "createApp e w name options =
     (let w1 = say (Log ''Create Electron React App'') w in
      case projectName_of e name of
        Inl err \<Rightarrow> (1, say (Log_error ''Error creating project:'' err) w1)
      | Inr projectName \<Rightarrow>
          if pathExists (files w1) (path_resolve (cwd e) projectName) then
            (1, say (Log (''Directory '' @ [CHR 0x22] @ projectName @ [CHR 0x22] @ '' already exists!'')) w1)
          else
            (case generateProject e w1 projectName (path_resolve (cwd e) projectName) (getConfig e options) of
               (Some err, w2) \<Rightarrow> (1, say (Log_error ''Error creating project:'' err) w2)
             | (None, w2) \<Rightarrow>
                 (0, showSuccessMessage
                       (postCreate e w2 (path_resolve (cwd e) projectName) (getConfig e options))
                       projectName (getConfig e options))))"

text \<open>
  The welcome-kit version reads the version of the template in its constructor
  (\<open>getTemplateVersion\<close>, \<open>unknown\<close> when that fails) and prints it first.
\<close>

fun js_string :: "json option \<Rightarrow> string" where
  "js_string None = ''undefined''"
| "js_string (Some JNull) = ''null''"
| "js_string (Some (JBool b)) = (if b then ''true'' else ''false'')"
| "js_string (Some (JNum lit)) = lit"
| "js_string (Some (JStr s)) = s"
| "js_string (Some (JObj ms)) = ''[object Object]''"
| "js_string (Some (JArr vs)) =
     join_with '','' (map (\<lambda>v. if v = JNull then [] else js_string (Some v)) vs)"

definition getTemplateVersion :: "env \<Rightarrow> fs \<Rightarrow> string" where
  "getTemplateVersion e fls =
     (case readJson e ReadVersion fls (path_join (dirname e) [''template'', ''package.json'']) of
        Inl err \<Rightarrow> ''unknown''
      | Inr JNull \<Rightarrow> ''unknown''
      | Inr (JObj ms) \<Rightarrow> js_string (map_of ms ''version'')
      | Inr other \<Rightarrow> js_string None)"

definition createApp_wk :: "env \<Rightarrow> world \<Rightarrow> string option \<Rightarrow> CreateOptions \<Rightarrow> nat \<times> world" where
  "createApp_wk e w name options =
     (let w1 = say (Log (''Framework version: v'' @ getTemplateVersion e (files w)))
                 (say (Log ''Create Electron React App'') w) in
      case projectName_of e name of
        Inl err \<Rightarrow> (1, say (Log_error ''Error creating project:'' err) w1)
      | Inr projectName \<Rightarrow>
          if pathExists (files w1) (path_resolve (cwd e) projectName) then
            (1, say (Log (''Directory '' @ [CHR 0x22] @ projectName @ [CHR 0x22] @ '' already exists!'')) w1)
          else
            (case generateProject_wk e w1 projectName (path_resolve (cwd e) projectName)
                    (getConfig_wk e options) of
               (Some err, w2) \<Rightarrow> (1, say (Log_error ''Error creating project:'' err) w2)
             | (None, w2) \<Rightarrow>
                 (0, showSuccessMessage
                       (postCreate e w2 (path_resolve (cwd e) projectName) (getConfig_wk e options))
                       projectName (getConfig_wk e options))))"

subsection \<open>Tokens left in a text\<close>







subsection \<open>A sample installation\<close>

text \<open>
  A tool installed under \<open>/opt/tool\<close> with the template of \<open>src/index.ts\<close> beside its
  \<open>dist\<close> directory and the template of the welcome-kit version inside it, run in
  \<open>/home/dev\<close> with \<open>--yes\<close>; nothing fails and every child process succeeds.
\<close>

definition sample_env :: env where
  "sample_env =
     \<lparr>cwd = [''home'', ''dev''], dirname = [''opt'', ''tool'', ''dist''], typed = [],
      answer_template = ''default'', answer_git = True, answer_install = True,
      answer_packageManager = ''npm'', answer_welcomeKit = True,
      fault = (\<lambda>s. None), magic = (\<lambda>fls p. []), exec = (\<lambda>command dir fls. (True, fls))\<rparr>"

definition sample_files :: fs where
  \<open>sample_files =
     [([''opt'', ''tool'', ''template'', ''package.json''], File ''{"name": "era", "version": "1.0.0"}''),
      ([''opt'', ''tool'', ''template'', ''README.md''], File ''# ElectronReactApp (era)''),
      ([''opt'', ''tool'', ''dist'', ''template'', ''package.json''], File ''{"name": "era", "version": "1.0.0"}''),
      ([''opt'', ''tool'', ''dist'', ''template'', ''README.md''], File ''# ElectronReactApp (era)''),
      ([''opt'', ''tool'', ''dist'', ''template'', ''app'', ''app.tsx''], File ''import { WelcomeKit } from "./components/welcome"''),
      ([''opt'', ''tool'', ''dist'', ''template'', ''app'', ''components'', ''welcome'', ''index.tsx''], File ''export const WelcomeKit = 1'')]\<close>

definition sample_world :: world where
  "sample_world = \<lparr>files = sample_files, console = [], spawned = []\<rparr>"

definition yes_options :: CreateOptions where
  "yes_options = \<lparr>opt_name = None, opt_template = None, opt_yes = Some True, opt_git = None, opt_install = None\<rparr>"

text \<open>The same installation on a machine where every child process fails.\<close>

definition failing_children :: env where
  "failing_children = sample_env\<lparr>exec := (\<lambda>command dir fls. (False, fls))\<rparr>"

text \<open>
  The same installation with a failing \<open>glob\<close>, with a failing \<open>replace\<close>, and with a user
  at the name prompt.
\<close>

definition broken_glob :: env where
  "broken_glob = sample_env\<lparr>fault := (\<lambda>s. if s = Glob then Some (\<lambda>p. False) else None)\<rparr>"

definition broken_replace :: env where
  "broken_replace = sample_env\<lparr>fault := (\<lambda>s. if s = Replace then Some (\<lambda>p. False) else None)\<rparr>"

definition at_prompt :: env where
  "at_prompt = sample_env\<lparr>typed := [''   '', ''My App'', ''good-name'', ''other'']\<rparr>"

text \<open>
  A generated project with installed dependencies and a log file, all its sources in
  the project directory; and one with sub-directories.
\<close>

definition project_files :: fs where
  \<open>project_files =
     [([''home'', ''dev'', ''app'', ''package.json''], File ''{"name": "era"}''),
      ([''home'', ''dev'', ''app'', ''main.ts''], File ''era''),
      ([''home'', ''dev'', ''app'', ''node_modules'', ''pkg'', ''index.js''], File ''era''),
      ([''home'', ''dev'', ''app'', ''debug.log''], File ''era'')]\<close>

definition nested_files :: fs where
  \<open>nested_files =
     [([''home'', ''dev'', ''app'', ''package.json''], File ''{"name": "era"}''),
      ([''home'', ''dev'', ''app'', ''src'', ''main.ts''], File ''era''),
      ([''home'', ''dev'', ''app'', ''sub'', ''x.log''], File ''era''),
      ([''home'', ''dev'', ''app'', ''sub'', ''package.json''], File ''era''),
      ([''home'', ''dev'', ''app'', ''a'', ''node_modules'', ''b.js''], File ''era''),
      ([''home'', ''dev'', ''app'', ''node_modules'', ''pkg'', ''index.js''], File ''era''),
      ([''home'', ''dev'', ''app'', ''debug.log''], File ''era'')]\<close>

text \<open>The sample installation with a source directory in the template of \<open>src/index.ts\<close>.\<close>

definition nested_world :: world where
  "nested_world =
     sample_world\<lparr>files := sample_files @ [([''opt'', ''tool'', ''template'', ''src'', ''main.ts''], File ''era'')]\<rparr>"

text \<open>
  A user who answers the prompts and declines the welcome kit, and the same user on a
  machine where \<open>fs.remove\<close> fails.
\<close>

definition ask_options :: CreateOptions where
  "ask_options = \<lparr>opt_name = None, opt_template = None, opt_yes = None, opt_git = None, opt_install = None\<rparr>"

definition without_kit :: env where
  "without_kit = sample_env\<lparr>answer_welcomeKit := False\<rparr>"

definition broken_remove :: env where
  "broken_remove = without_kit\<lparr>fault := (\<lambda>s. if s = Remove then Some (\<lambda>p. False) else None)\<rparr>"

text \<open>The same installation with a template that has no \<open>app/app.tsx\<close>.\<close>

definition bare_world :: world where
  "bare_world =
     sample_world\<lparr>files :=
       filter (\<lambda>qn. fst qn \<noteq> [''opt'', ''tool'', ''dist'', ''template'', ''app'', ''app.tsx''])
         sample_files\<rparr>"



section \<open>Properties\<close>

subsection \<open>Helpers\<close>

lemma files_say [simp]: "files (say ev w) = files w"
  by (simp add: say_def)

lemma spawned_say [simp]: "spawned (say ev w) = spawned w"
  by (simp add: say_def)

lemma console_say [simp]: "console (say ev w) = console w @ [ev]"
  by (simp add: say_def)


subsection \<open>The target directory exists (C1)\<close>

text \<open>
  C1: when the directory of the project, \<open>path.resolve(cwd, projectName)\<close>, exists before
  generation starts, the run changes nothing in the file system, starts no child
  process and exits with status 1, in both versions.
\<close>

theorem existing_directory_aborts:
  assumes "projectName_of e name = Inr projectName"
    and "pathExists (files w) (path_resolve (cwd e) projectName)"
  shows "fst (createApp e w name options) = 1
       \<and> files (snd (createApp e w name options)) = files w
       \<and> spawned (snd (createApp e w name options)) = spawned w
       \<and> fst (createApp_wk e w name options) = 1
       \<and> files (snd (createApp_wk e w name options)) = files w
       \<and> spawned (snd (createApp_wk e w name options)) = spawned w"
  using assms by (simp add: createApp_def createApp_wk_def Let_def)

theorem existing_directory_aborts_witness:
  "projectName_of sample_env (Some ''demo-app'') = Inr ''demo-app''
   \<and> pathExists (files (sample_world\<lparr>files := ([''home'', ''dev'', ''demo-app''], Dir) # sample_files\<rparr>))
        (path_resolve (cwd sample_env) ''demo-app'')
   \<and> fst (createApp sample_env (sample_world\<lparr>files := ([''home'', ''dev'', ''demo-app''], Dir) # sample_files\<rparr>)
        (Some ''demo-app'') yes_options) = 1
   \<and> fst (createApp sample_env sample_world (Some ''demo-app'') yes_options) = 0"
proof -
  let ?w = "sample_world\<lparr>files := ([''home'', ''dev'', ''demo-app''], Dir) # sample_files\<rparr>"
  have h1: "projectName_of sample_env (Some ''demo-app'') = Inr ''demo-app''"
    by (simp add: projectName_of_def)
  have h2: "pathExists (files ?w) (path_resolve (cwd sample_env) ''demo-app'')"
    by code_simp
  have h3: "fst (createApp sample_env sample_world (Some ''demo-app'') yes_options) = 0"
    by code_simp
  from existing_directory_aborts [OF h1 h2] h1 h2 h3 show ?thesis
    by blast
qed

subsection \<open>The install command (C10)\<close>

text \<open>
  C10: \<open>getInstallCommand\<close> returns a command for every string: \<open>yarn\<close>, \<open>pnpm\<close> and
  \<open>bun\<close> give their own install command, and every other string, inside or outside
  the documented enumeration, gives \<open>npm install\<close>. The function has no failing branch.
\<close>

theorem getInstallCommand_total:
  "getInstallCommand ''yarn'' = ''yarn install''
   \<and> getInstallCommand ''pnpm'' = ''pnpm install''
   \<and> getInstallCommand ''bun'' = ''bun install''
   \<and> (pm \<notin> {''yarn'', ''pnpm'', ''bun''} \<longrightarrow> getInstallCommand pm = ''npm install'')
   \<and> getInstallCommand pm \<in> {''yarn install'', ''pnpm install'', ''bun install'', ''npm install''}"
  by (simp add: getInstallCommand_def)

theorem getInstallCommand_total_witness:
  "''cargo'' \<notin> {''yarn'', ''pnpm'', ''bun''} \<and> getInstallCommand ''cargo'' = ''npm install''
   \<and> getInstallCommand ''npm'' = ''npm install''"
  using getInstallCommand_total [of "''cargo''"] getInstallCommand_total [of "''npm''"]
  by simp

subsection \<open>Failing child processes (C8)\<close>

text \<open>No operation of the generator looks at \<open>exec\<close>; only \<open>postCreate\<close> does.\<close>

lemma spawned_postCreate:
  "spawned (postCreate e w p config) =
     spawned w @ (if git config then [(''git init'', p)] else [])
       @ (if install config then [(getInstallCommand (packageManager config), p)] else [])"
  by (simp add: postCreate_def execSync_def Let_def split: prod.splits bool.splits)

lemma console_postCreate_git:
  "git config \<Longrightarrow> \<not> fst (exec e ''git init'' p (files w)) \<Longrightarrow>
     Spinner_fail ''Failed to initialize git repository'' \<in> set (console (postCreate e w p config))"
  by (simp add: postCreate_def execSync_def Let_def split: prod.splits bool.splits)

lemma console_postCreate_install:
  "install config \<Longrightarrow>
   \<not> fst (exec e (getInstallCommand (packageManager config)) p
            (files (postCreate e w p (config\<lparr>install := False\<rparr>)))) \<Longrightarrow>
     Spinner_fail ''Failed to install dependencies'' \<in> set (console (postCreate e w p config))"
  by (simp add: postCreate_def execSync_def Let_def split: prod.splits bool.splits)

lemmas branch_congs = if_cong option.case_cong sum.case_cong prod.case_cong

lemma readFile_exec: "readFile (e\<lparr>exec := x\<rparr>) st fls p = readFile e st fls p"
  by (simp add: readFile_def)

lemma writeFile_exec: "writeFile (e\<lparr>exec := x\<rparr>) st fls p c = writeFile e st fls p c"
  by (simp add: writeFile_def)

lemma readJson_exec: "readJson (e\<lparr>exec := x\<rparr>) st fls p = readJson e st fls p"
  by (simp add: readJson_def readFile_exec)

lemma writeJson_exec: "writeJson (e\<lparr>exec := x\<rparr>) st fls p v = writeJson e st fls p v"
  by (simp add: writeJson_def writeFile_exec)

lemma copy_exec: "copy (e\<lparr>exec := x\<rparr>) fls src dest = copy e fls src dest"
  by (simp add: copy_def cong: branch_congs)

lemma remove_exec: "remove (e\<lparr>exec := x\<rparr>) fls p = remove e fls p"
  by (simp add: remove_def)

lemma glob_exec: "glob (e\<lparr>exec := x\<rparr>) fls pat dir ign nodir = glob e fls pat dir ign nodir"
  by (simp add: glob_def)

lemma globAsync_exec: "globAsync (e\<lparr>exec := x\<rparr>) fls = globAsync e fls"
  by (rule ext) (simp add: globAsync_def)

lemma getPathsAsync_exec: "getPathsAsync (e\<lparr>exec := x\<rparr>) fls ps = getPathsAsync e fls ps"
  by (simp add: getPathsAsync_def globAsync_exec cong: list.case_cong)

lemma replaceInFile_exec: "replaceInFile (e\<lparr>exec := x\<rparr>) fls ps from to = replaceInFile e fls ps from to"
  by (simp add: replaceInFile_def getPathsAsync_exec cong: branch_congs)

lemma updatePackageJson_exec: "updatePackageJson (e\<lparr>exec := x\<rparr>) fls p n = updatePackageJson e fls p n"
  by (simp add: updatePackageJson_def readJson_exec writeJson_exec cong: branch_congs)

lemma replaceProjectName_exec: "replaceProjectName (e\<lparr>exec := x\<rparr>) fls p n = replaceProjectName e fls p n"
  by (simp add: replaceProjectName_def glob_exec replaceInFile_exec cong: branch_congs)

lemma replaceProjectName_wk_exec: "replaceProjectName_wk (e\<lparr>exec := x\<rparr>) w p n = replaceProjectName_wk e w p n"
  by (simp add: replaceProjectName_wk_def glob_exec replaceInFile_exec cong: branch_congs)

lemma removeWelcomeKit_exec: "removeWelcomeKit (e\<lparr>exec := x\<rparr>) w p = removeWelcomeKit e w p"
  by (simp add: removeWelcomeKit_def remove_exec readFile_exec writeFile_exec cong: branch_congs)

lemma generateProject_exec:
  "generateProject (e\<lparr>exec := x\<rparr>) w n p c = generateProject e w n p c"
  by (simp add: generateProject_def copy_exec updatePackageJson_exec replaceProjectName_exec
      cong: branch_congs)

lemma generateProject_wk_exec:
  "generateProject_wk (e\<lparr>exec := x\<rparr>) w n p c = generateProject_wk e w n p c"
  by (simp add: generateProject_wk_def copy_exec updatePackageJson_exec replaceProjectName_wk_exec
      removeWelcomeKit_exec cong: branch_congs)

lemma projectName_of_exec: "projectName_of (e\<lparr>exec := x\<rparr>) name = projectName_of e name"
  by (simp add: projectName_of_def getProjectName_def cong: branch_congs)

lemma getConfig_exec: "getConfig (e\<lparr>exec := x\<rparr>) options = getConfig e options"
  by (simp add: getConfig_def)

lemma getConfig_wk_exec: "getConfig_wk (e\<lparr>exec := x\<rparr>) options = getConfig_wk e options"
  by (simp add: getConfig_wk_def)

lemma getTemplateVersion_exec: "getTemplateVersion (e\<lparr>exec := x\<rparr>) fls = getTemplateVersion e fls"
  by (simp add: getTemplateVersion_def readJson_exec)

lemma exit_createApp_exec:
  "fst (createApp (e\<lparr>exec := x\<rparr>) w name options) = fst (createApp e w name options)"
  by (simp add: createApp_def Let_def projectName_of_exec getConfig_exec generateProject_exec
      split: sum.splits prod.splits option.splits)

lemma exit_createApp_wk_exec:
  "fst (createApp_wk (e\<lparr>exec := x\<rparr>) w name options) = fst (createApp_wk e w name options)"
  by (simp add: createApp_wk_def Let_def projectName_of_exec getConfig_wk_exec generateProject_wk_exec
      getTemplateVersion_exec
      split: sum.splits prod.splits option.splits)

lemma success_reported:
  "fst (createApp e w name options) = 0 \<Longrightarrow>
     Log ''Project created successfully!'' \<in> set (console (snd (createApp e w name options)))"
  by (auto simp add: createApp_def Let_def showSuccessMessage_def split: sum.splits prod.splits option.splits if_splits)

lemma success_reported_wk:
  "fst (createApp_wk e w name options) = 0 \<Longrightarrow>
     Log ''Project created successfully!'' \<in> set (console (snd (createApp_wk e w name options)))"
  by (auto simp add: createApp_wk_def Let_def showSuccessMessage_def split: sum.splits prod.splits option.splits if_splits)

text \<open>
  C8: a failure of \<open>git init\<close> or of the install command is reported by its spinner
  and changes nothing else. \<open>postCreate\<close> starts the install command whenever
  \<open>install\<close> is set, whatever \<open>git init\<close> did; the exit status of a run does not depend
  on what the child processes do; and a run that exits with status 0 has printed the
  success message.
\<close>

theorem child_failures_not_fatal:
  "spawned (postCreate e w p config) =
     spawned w @ (if git config then [(''git init'', p)] else [])
       @ (if install config then [(getInstallCommand (packageManager config), p)] else [])
   \<and> (git config \<and> \<not> fst (exec e ''git init'' p (files w)) \<longrightarrow>
        Spinner_fail ''Failed to initialize git repository'' \<in> set (console (postCreate e w p config)))
   \<and> (install config
        \<and> \<not> fst (exec e (getInstallCommand (packageManager config)) p
                   (files (postCreate e w p (config\<lparr>install := False\<rparr>)))) \<longrightarrow>
        Spinner_fail ''Failed to install dependencies'' \<in> set (console (postCreate e w p config)))
   \<and> fst (createApp (e\<lparr>exec := x\<rparr>) w name options) = fst (createApp e w name options)
   \<and> fst (createApp_wk (e\<lparr>exec := x\<rparr>) w name options) = fst (createApp_wk e w name options)
   \<and> (fst (createApp e w name options) = 0 \<longrightarrow>
        Log ''Project created successfully!'' \<in> set (console (snd (createApp e w name options))))
   \<and> (fst (createApp_wk e w name options) = 0 \<longrightarrow>
        Log ''Project created successfully!'' \<in> set (console (snd (createApp_wk e w name options))))"
  by (simp add: spawned_postCreate console_postCreate_git console_postCreate_install
      exit_createApp_exec exit_createApp_wk_exec success_reported success_reported_wk)

theorem child_failures_not_fatal_witness:
  "git (getConfig failing_children yes_options)
   \<and> install (getConfig failing_children yes_options)
   \<and> \<not> fst (exec failing_children ''git init'' [''home'', ''dev'', ''demo-app''] (files sample_world))
   \<and> \<not> fst (exec failing_children (getInstallCommand (packageManager (getConfig failing_children yes_options)))
              [''home'', ''dev'', ''demo-app'']
              (files (postCreate failing_children sample_world [''home'', ''dev'', ''demo-app'']
                        ((getConfig failing_children yes_options)\<lparr>install := False\<rparr>))))
   \<and> fst (createApp failing_children sample_world (Some ''demo-app'') yes_options) = 0
   \<and> fst (createApp_wk failing_children sample_world (Some ''demo-app'') yes_options) = 0
   \<and> spawned (postCreate failing_children sample_world [''home'', ''dev'', ''demo-app'']
               (getConfig failing_children yes_options))
       = [(''git init'', [''home'', ''dev'', ''demo-app'']), (''npm install'', [''home'', ''dev'', ''demo-app''])]
   \<and> Spinner_fail ''Failed to initialize git repository''
        \<in> set (console (postCreate failing_children sample_world [''home'', ''dev'', ''demo-app'']
                           (getConfig failing_children yes_options)))
   \<and> Spinner_fail ''Failed to install dependencies''
        \<in> set (console (postCreate failing_children sample_world [''home'', ''dev'', ''demo-app'']
                           (getConfig failing_children yes_options)))
   \<and> Log ''Project created successfully!''
        \<in> set (console (snd (createApp failing_children sample_world (Some ''demo-app'') yes_options)))
   \<and> Log ''Project created successfully!''
        \<in> set (console (snd (createApp_wk failing_children sample_world (Some ''demo-app'') yes_options)))"
proof -
  let ?c = "getConfig failing_children yes_options"
  let ?p = "[''home'', ''dev'', ''demo-app'']"
  have g: "git ?c" and i: "install ?c"
    by (simp_all add: getConfig_def yes_options_def)
  have pm: "getInstallCommand (packageManager ?c) = ''npm install''"
    by (simp add: getConfig_def yes_options_def getInstallCommand_def)
  have fg: "\<not> fst (exec failing_children ''git init'' ?p (files sample_world))"
    by (simp add: failing_children_def)
  have fi: "\<not> fst (exec failing_children (getInstallCommand (packageManager ?c)) ?p
                     (files (postCreate failing_children sample_world ?p (?c\<lparr>install := False\<rparr>))))"
    by (simp add: failing_children_def)
  have x0: "fst (createApp failing_children sample_world (Some ''demo-app'') yes_options) = 0"
    by code_simp
  have x1: "fst (createApp_wk failing_children sample_world (Some ''demo-app'') yes_options) = 0"
    by code_simp
  have sp: "spawned sample_world = []"
    by (simp add: sample_world_def)
  from child_failures_not_fatal [where e = failing_children and w = sample_world and p = ?p
      and config = ?c and x = "exec sample_env" and name = "Some ''demo-app''"
      and options = yes_options] g i pm fg fi x0 x1 sp
  show ?thesis by simp
qed

subsection \<open>A failing Name Rewriter (C4)\<close>

text \<open>
  In \<open>src/index.ts\<close> nothing catches an error of \<open>glob\<close> or \<open>replace\<close>: it leaves
  \<open>generateProject\<close>, and \<open>createApp\<close> exits with status 1. The sample run that succeeds
  fails as soon as \<open>glob\<close> does, where the welcome-kit version exits with status 0. A
  template with a source directory makes \<open>replace\<close> fail with nothing wrong in the
  environment: \<open>glob\<close> lists the directory, and \<open>replace\<close> finds no file for it.
\<close>

theorem rewriter_failure_fatal_in_index_ts:
  "fault broken_glob Glob \<noteq> None
   \<and> fst (createApp sample_env sample_world (Some ''demo-app'') yes_options) = 0
   \<and> fst (createApp broken_glob sample_world (Some ''demo-app'') yes_options) = 1
   \<and> Log ''Project created successfully!''
        \<notin> set (console (snd (createApp broken_glob sample_world (Some ''demo-app'') yes_options)))
   \<and> fst (createApp_wk broken_glob sample_world (Some ''demo-app'') yes_options) = 0
   \<and> fst (createApp sample_env nested_world (Some ''demo-app'') yes_options) = 1
   \<and> console (snd (createApp sample_env nested_world (Some ''demo-app'') yes_options))
       = [Log ''Create Electron React App'', Spinner_start ''Creating project...'',
          Spinner_fail ''Failed to create project'',
          Log_error ''Error creating project:'' (NoFilesMatch [''home'', ''dev'', ''demo-app'', ''src''])]
   \<and> fst (createApp_wk sample_env nested_world (Some ''demo-app'') yes_options) = 0"
  by code_simp

text \<open>
  The steps of the welcome-kit version other than the rewriter do not look at its
  faults, nor at what the glob of \<open>replace\<close> finds.
\<close>

lemma readFile_rw: "st \<noteq> Glob \<Longrightarrow> st \<noteq> Replace \<Longrightarrow>
    readFile (e\<lparr>fault := (fault e)(Glob := g, Replace := r), magic := m\<rparr>) st fls p = readFile e st fls p"
  by (simp add: readFile_def)

lemma writeFile_rw: "st \<noteq> Glob \<Longrightarrow> st \<noteq> Replace \<Longrightarrow>
    writeFile (e\<lparr>fault := (fault e)(Glob := g, Replace := r), magic := m\<rparr>) st fls p c = writeFile e st fls p c"
  by (simp add: writeFile_def)

lemma readJson_rw: "st \<noteq> Glob \<Longrightarrow> st \<noteq> Replace \<Longrightarrow>
    readJson (e\<lparr>fault := (fault e)(Glob := g, Replace := r), magic := m\<rparr>) st fls p = readJson e st fls p"
  by (simp add: readJson_def readFile_rw)

lemma writeJson_rw: "st \<noteq> Glob \<Longrightarrow> st \<noteq> Replace \<Longrightarrow>
    writeJson (e\<lparr>fault := (fault e)(Glob := g, Replace := r), magic := m\<rparr>) st fls p v = writeJson e st fls p v"
  by (simp add: writeJson_def writeFile_rw)

lemma copy_rw:
  "copy (e\<lparr>fault := (fault e)(Glob := g, Replace := r), magic := m\<rparr>) fls src dest = copy e fls src dest"
  by (simp add: copy_def cong: branch_congs)

lemma remove_rw:
  "remove (e\<lparr>fault := (fault e)(Glob := g, Replace := r), magic := m\<rparr>) fls p = remove e fls p"
  by (simp add: remove_def)

lemma updatePackageJson_rw:
  "updatePackageJson (e\<lparr>fault := (fault e)(Glob := g, Replace := r), magic := m\<rparr>) fls p n
     = updatePackageJson e fls p n"
  by (simp add: updatePackageJson_def readJson_rw writeJson_rw cong: branch_congs)

lemma removeWelcomeKit_rw:
  "removeWelcomeKit (e\<lparr>fault := (fault e)(Glob := g, Replace := r), magic := m\<rparr>) w p = removeWelcomeKit e w p"
  by (simp add: removeWelcomeKit_def remove_rw readFile_rw writeFile_rw cong: branch_congs)

lemma fst_generateProject_wk_rw:
  "fst (generateProject_wk (e\<lparr>fault := (fault e)(Glob := g, Replace := r), magic := m\<rparr>) w n p c)
     = fst (generateProject_wk e w n p c)"
  by (simp add: generateProject_wk_def Let_def copy_rw updatePackageJson_rw removeWelcomeKit_rw
      split: prod.splits option.splits sum.splits)

lemma projectName_of_rw:
  "projectName_of (e\<lparr>fault := (fault e)(Glob := g, Replace := r), magic := m\<rparr>) name = projectName_of e name"
  by (simp add: projectName_of_def getProjectName_def cong: branch_congs)

lemma getConfig_wk_rw:
  "getConfig_wk (e\<lparr>fault := (fault e)(Glob := g, Replace := r), magic := m\<rparr>) options = getConfig_wk e options"
  by (simp add: getConfig_wk_def)

lemma getTemplateVersion_rw:
  "getTemplateVersion (e\<lparr>fault := (fault e)(Glob := g, Replace := r), magic := m\<rparr>) fls = getTemplateVersion e fls"
  by (simp add: getTemplateVersion_def readJson_rw)

lemma exit_case: "fst (case x of (None, w2) \<Rightarrow> (0::nat, f w2) | (Some err, w2) \<Rightarrow> (1, h err w2))
    = (if fst x = None then 0 else 1)"
  by (simp split: prod.splits option.splits)

lemma exit_createApp_wk_rw:
  "fst (createApp_wk (e\<lparr>fault := (fault e)(Glob := g, Replace := r), magic := m\<rparr>) w name options)
     = fst (createApp_wk e w name options)"
  by (simp add: createApp_wk_def Let_def projectName_of_rw getConfig_wk_rw exit_case
      fst_generateProject_wk_rw getTemplateVersion_rw
      split: sum.splits)

lemma replaceProjectName_wk_glob_failure:
  "glob e (files w) ''**/*'' p
     [''node_modules/**'', ''dist/**'', ''out/**'', ''.git/**'', ''*.log'', ''package.json''] True
     = Inl err \<Longrightarrow>
     replaceProjectName_wk e w p n
       = say (Log_warn ''Warning: Could not replace project names in files:'' err) w"
  by (simp add: replaceProjectName_wk_def)

lemma replaceProjectName_wk_replace_failure:
  "glob e (files w) ''**/*'' p
     [''node_modules/**'', ''dist/**'', ''out/**'', ''.git/**'', ''*.log'', ''package.json''] True
     = Inr found \<Longrightarrow> found \<noteq> [] \<Longrightarrow>
   replaceInFile e (files w) (map (\<lambda>file. p @ file) found) from_patterns_wk (to_replacements n)
     = (Some err, fls) \<Longrightarrow>
     replaceProjectName_wk e w p n
       = say (Log_warn ''Warning: Could not replace project names in files:'' err) (w\<lparr>files := fls\<rparr>)"
  by (simp add: replaceProjectName_wk_def)

lemma replaceInFile_fault:
  "fault e Replace \<noteq> None \<Longrightarrow> fst (replaceInFile e fls ps from to) \<noteq> None"
  by (auto simp add: replaceInFile_def split: sum.splits)

lemma replaceProjectName_fault:
  assumes "fault e Glob \<noteq> None \<or> fault e Replace \<noteq> None"
  shows "fst (replaceProjectName e fls p n) \<noteq> None"
proof (cases "glob e fls ''**/*'' p [''node_modules/**'', ''dist/**'', ''out/**'', ''.git/**'', ''*.log''] False")
  case (Inl err)
  then show ?thesis by (simp add: replaceProjectName_def)
next
  case (Inr found)
  then have "fault e Glob = None"
    by (simp add: glob_def split: if_splits)
  with assms have "fault e Replace \<noteq> None"
    by simp
  from replaceInFile_fault [OF this] Inr show ?thesis
    by (simp add: replaceProjectName_def)
qed

lemma generateProject_failure:
  "(\<And>fls. fst (replaceProjectName e fls p n) \<noteq> None) \<Longrightarrow> fst (generateProject e w n p c) \<noteq> None"
proof -
  assume a: "\<And>fls. fst (replaceProjectName e fls p n) \<noteq> None"
  have "replaceProjectName e fls p n \<noteq> (None, fls')" for fls fls'
    using a [of fls] by auto
  then show ?thesis
    by (auto simp add: generateProject_def Let_def split: prod.splits option.splits sum.splits)
qed

lemma createApp_fault:
  assumes "fault e Glob \<noteq> None \<or> fault e Replace \<noteq> None"
  shows "fst (createApp e w name options) = 1"
proof -
  have g: "fst (generateProject e w' n p c) \<noteq> None" for w' n p c
    by (rule generateProject_failure) (rule replaceProjectName_fault [OF assms])
  show ?thesis
  proof (cases "projectName_of e name")
    case (Inl err)
    then show ?thesis by (simp add: createApp_def Let_def)
  next
    case (Inr projectName)
    with g [of "say (Log ''Create Electron React App'') w" projectName
        "path_resolve (cwd e) projectName" "getConfig e options"]
    show ?thesis
      by (auto simp add: createApp_def Let_def exit_case)
  qed
qed

text \<open>
  C4: what the claim says holds in the welcome-kit version. An error of \<open>glob\<close> or of
  \<open>replace\<close>, whatever it is, is caught in \<open>replaceProjectName\<close>, which prints a warning
  and returns; the exit status of the run does not depend on the faults of the two
  steps nor on what the glob of \<open>replace\<close> finds, and a run that exits with status 0 has
  printed the success message. In \<open>src/index.ts\<close> a fault of either step ends the run
  with status 1.
\<close>

theorem rewriter_failure:
  "fst (createApp_wk (e\<lparr>fault := (fault e)(Glob := g, Replace := r), magic := m\<rparr>) w name options)
     = fst (createApp_wk e w name options)
   \<and> (glob e (files w') ''**/*'' p
          [''node_modules/**'', ''dist/**'', ''out/**'', ''.git/**'', ''*.log'', ''package.json''] True
         = Inl err \<longrightarrow>
        replaceProjectName_wk e w' p n
          = say (Log_warn ''Warning: Could not replace project names in files:'' err) w')
   \<and> (glob e (files w') ''**/*'' p
          [''node_modules/**'', ''dist/**'', ''out/**'', ''.git/**'', ''*.log'', ''package.json''] True
         = Inr found
        \<and> found \<noteq> []
        \<and> replaceInFile e (files w') (map (\<lambda>file. p @ file) found) from_patterns_wk (to_replacements n)
            = (Some err', fls) \<longrightarrow>
        replaceProjectName_wk e w' p n
          = say (Log_warn ''Warning: Could not replace project names in files:'' err')
              (w'\<lparr>files := fls\<rparr>))
   \<and> (fst (createApp_wk e w name options) = 0 \<longrightarrow>
        Log ''Project created successfully!'' \<in> set (console (snd (createApp_wk e w name options))))
   \<and> (fault e Glob \<noteq> None \<or> fault e Replace \<noteq> None \<longrightarrow> fst (createApp e w name options) = 1)"
  using replaceProjectName_wk_replace_failure [of e w' p found n err' fls]
    replaceProjectName_wk_glob_failure [of e w' p err n]
  by (simp add: exit_createApp_wk_rw success_reported_wk createApp_fault)

theorem rewriter_failure_witness:
  "fst (createApp_wk broken_glob sample_world (Some ''demo-app'') yes_options) = 0
   \<and> fst (createApp_wk (broken_glob\<lparr>fault := (fault broken_glob)(Glob := None, Replace := None),
                                     magic := magic broken_glob\<rparr>)
            sample_world (Some ''demo-app'') yes_options) = 0
   \<and> glob broken_glob (files sample_world) ''**/*'' [''opt'', ''tool'', ''dist'', ''template'']
        [''node_modules/**'', ''dist/**'', ''out/**'', ''.git/**'', ''*.log'', ''package.json''] True
        = Inl (Failure Glob)
   \<and> replaceProjectName_wk broken_glob sample_world [''opt'', ''tool'', ''dist'', ''template''] ''demo-app''
        = say (Log_warn ''Warning: Could not replace project names in files:'' (Failure Glob)) sample_world
   \<and> Log ''Project created successfully!''
        \<in> set (console (snd (createApp_wk broken_glob sample_world (Some ''demo-app'') yes_options)))
   \<and> fault broken_glob Glob \<noteq> None
   \<and> fst (createApp broken_glob sample_world (Some ''demo-app'') yes_options) = 1
   \<and> glob broken_replace (files sample_world) ''**/*'' [''opt'', ''tool'', ''dist'', ''template'']
        [''node_modules/**'', ''dist/**'', ''out/**'', ''.git/**'', ''*.log'', ''package.json''] True
        = Inr [[''README.md''], [''app'', ''app.tsx''], [''app'', ''components'', ''welcome'', ''index.tsx'']]
   \<and> replaceInFile broken_replace (files sample_world)
        (map (\<lambda>file. [''opt'', ''tool'', ''dist'', ''template''] @ file)
           [[''README.md''], [''app'', ''app.tsx''], [''app'', ''components'', ''welcome'', ''index.tsx'']])
        from_patterns_wk (to_replacements ''demo-app'')
        = (Some (Failure Replace), sample_files)
   \<and> replaceProjectName_wk broken_replace sample_world [''opt'', ''tool'', ''dist'', ''template''] ''demo-app''
        = say (Log_warn ''Warning: Could not replace project names in files:'' (Failure Replace))
            (sample_world\<lparr>files := sample_files\<rparr>)
   \<and> fault broken_replace Replace \<noteq> None
   \<and> fst (createApp broken_replace sample_world (Some ''demo-app'') yes_options) = 1"
proof -
  let ?p = "[''opt'', ''tool'', ''dist'', ''template'']"
  let ?found = "[[''README.md''], [''app'', ''app.tsx''], [''app'', ''components'', ''welcome'', ''index.tsx'']]"
  have f: "fault broken_glob Glob \<noteq> None"
    by (simp add: broken_glob_def)
  have x: "fst (createApp_wk broken_glob sample_world (Some ''demo-app'') yes_options) = 0"
    by code_simp
  have g0: "glob broken_glob (files sample_world) ''**/*'' ?p
        [''node_modules/**'', ''dist/**'', ''out/**'', ''.git/**'', ''*.log'', ''package.json''] True
        = Inl (Failure Glob)"
    by code_simp
  have f': "fault broken_replace Replace \<noteq> None"
    by (simp add: broken_replace_def)
  have g: "glob broken_replace (files sample_world) ''**/*'' ?p
        [''node_modules/**'', ''dist/**'', ''out/**'', ''.git/**'', ''*.log'', ''package.json''] True
        = Inr ?found"
    by code_simp
  have r: "replaceInFile broken_replace (files sample_world) (map (\<lambda>file. ?p @ file) ?found)
        from_patterns_wk (to_replacements ''demo-app'')
        = (Some (Failure Replace), sample_files)"
    by code_simp
  from rewriter_failure [where e = broken_glob and g = None and r = None and m = "magic broken_glob"
      and w = sample_world and name = "Some ''demo-app''" and options = yes_options
      and w' = sample_world and p = ?p and n = "''demo-app''" and err = "Failure Glob"] f x g0
  have a: "fst (createApp_wk (broken_glob\<lparr>fault := (fault broken_glob)(Glob := None, Replace := None),
                                     magic := magic broken_glob\<rparr>)
            sample_world (Some ''demo-app'') yes_options) = 0
   \<and> replaceProjectName_wk broken_glob sample_world ?p ''demo-app''
        = say (Log_warn ''Warning: Could not replace project names in files:'' (Failure Glob)) sample_world
   \<and> Log ''Project created successfully!''
        \<in> set (console (snd (createApp_wk broken_glob sample_world (Some ''demo-app'') yes_options)))
   \<and> fst (createApp broken_glob sample_world (Some ''demo-app'') yes_options) = 1"
    by simp
  from rewriter_failure [where e = broken_replace and w = sample_world
      and name = "Some ''demo-app''" and options = yes_options and w' = sample_world
      and p = ?p and n = "''demo-app''" and found = ?found and err' = "Failure Replace"
      and fls = sample_files]
    f' g r
  have b: "replaceProjectName_wk broken_replace sample_world ?p ''demo-app''
        = say (Log_warn ''Warning: Could not replace project names in files:'' (Failure Replace))
            (sample_world\<lparr>files := sample_files\<rparr>)
   \<and> fst (createApp broken_replace sample_world (Some ''demo-app'') yes_options) = 1"
    by simp
  from a b f x f' g g0 r show ?thesis
    by blast
qed

subsection \<open>Project names that do not match the pattern (C5)\<close>

text \<open>
  A name given as the argument is not validated: \<open>My_App\<close> with \<open>--yes\<close> is generated,
  and the child processes run, in both versions.
\<close>

theorem invalid_argument_is_used:
  "\<not> valid_name ''My_App''
   \<and> fst (createApp sample_env sample_world (Some ''My_App'') yes_options) = 0
   \<and> pathExists (files (snd (createApp sample_env sample_world (Some ''My_App'') yes_options)))
        [''home'', ''dev'', ''My_App'', ''package.json'']
   \<and> \<not> pathExists (files sample_world) [''home'', ''dev'', ''My_App'', ''package.json'']
   \<and> spawned (snd (createApp sample_env sample_world (Some ''My_App'') yes_options))
        = [(''git init'', [''home'', ''dev'', ''My_App'']), (''npm install'', [''home'', ''dev'', ''My_App''])]
   \<and> fst (createApp_wk sample_env sample_world (Some ''My_App'') yes_options) = 0
   \<and> spawned (snd (createApp_wk sample_env sample_world (Some ''My_App'') yes_options))
        = [(''git init'', [''home'', ''dev'', ''My_App'']), (''npm install'', [''home'', ''dev'', ''My_App''])]"
  by code_simp

lemma prompt_name_valid: "prompt_name lines = Some n \<Longrightarrow> valid_name n"
  by (induction lines) (auto simp add: validate_def split: if_splits)

lemma prompt_name_reject:
  "line \<noteq> [] \<Longrightarrow> \<not> valid_name line \<Longrightarrow> prompt_name (line # later) = prompt_name later"
  by (simp add: validate_def)

lemma createApp_no_name:
  "projectName_of e name = Inl err \<Longrightarrow>
     fst (createApp e w name options) = 1
     \<and> files (snd (createApp e w name options)) = files w
     \<and> spawned (snd (createApp e w name options)) = spawned w
     \<and> fst (createApp_wk e w name options) = 1
     \<and> files (snd (createApp_wk e w name options)) = files w
     \<and> spawned (snd (createApp_wk e w name options)) = spawned w"
  by (simp add: createApp_def createApp_wk_def Let_def)

lemma argument_trusted: "n \<noteq> [] \<Longrightarrow> projectName_of e (Some n) = Inr n"
  by (simp add: projectName_of_def)

lemma empty_argument_prompts: "projectName_of e (Some []) = projectName_of e None"
  by (simp add: projectName_of_def)

lemma prompted_name_valid: "projectName_of e None = Inr n \<Longrightarrow> valid_name n"
  by (auto simp add: projectName_of_def getProjectName_def dest: prompt_name_valid split: option.splits)

text \<open>
  C5, amended: a non-empty name given as the argument is used as it is. Only the prompt
  validates, and it is asked when the argument is missing or empty: an answer that does
  not match \<open>^[a-z0-9-]+$\<close> is asked for again, so a name that comes from the prompt
  matches. When no name is obtained the run exits with status 1, has written no file
  and has started no child process.
\<close>

theorem name_validation:
  "(n \<noteq> [] \<longrightarrow> projectName_of e (Some n) = Inr n)
   \<and> projectName_of e (Some []) = projectName_of e None
   \<and> (line \<noteq> [] \<and> \<not> valid_name line \<longrightarrow> prompt_name (line # later) = prompt_name later)
   \<and> (projectName_of e None = Inr n' \<longrightarrow> valid_name n')
   \<and> (projectName_of e name = Inl err \<longrightarrow>
        fst (createApp e w name options) = 1
        \<and> files (snd (createApp e w name options)) = files w
        \<and> spawned (snd (createApp e w name options)) = spawned w
        \<and> fst (createApp_wk e w name options) = 1
        \<and> files (snd (createApp_wk e w name options)) = files w
        \<and> spawned (snd (createApp_wk e w name options)) = spawned w)"
  using createApp_no_name [of e name err w options] argument_trusted [of n e]
    empty_argument_prompts [of e] prompt_name_reject [of line later] prompted_name_valid [of e n']
  by blast

theorem name_validation_witness:
  "''My_App'' \<noteq> [] \<and> \<not> valid_name ''My_App''
   \<and> projectName_of sample_env (Some ''My_App'') = Inr ''My_App''
   \<and> ''My App'' \<noteq> [] \<and> \<not> valid_name ''My App''
   \<and> prompt_name [''My App'', ''good-name''] = prompt_name [''good-name'']
   \<and> projectName_of at_prompt None = Inr ''good-name'' \<and> valid_name ''good-name''
   \<and> projectName_of sample_env None = Inl PromptClosed
   \<and> fst (createApp sample_env sample_world None yes_options) = 1
   \<and> files (snd (createApp sample_env sample_world None yes_options)) = files sample_world
   \<and> spawned (snd (createApp_wk sample_env sample_world None yes_options)) = spawned sample_world"
proof -
  have a: "''My_App'' \<noteq> []" and b: "\<not> valid_name ''My_App''"
    and c: "''My App'' \<noteq> []" and d: "\<not> valid_name ''My App''"
    by (simp_all add: valid_name_def is_name_char_def lower_chars_def digit_chars_def)
  have p: "projectName_of at_prompt None = Inr ''good-name''"
    by code_simp
  have q: "projectName_of sample_env None = Inl PromptClosed"
    by (simp add: projectName_of_def getProjectName_def sample_env_def)
  from name_validation [where n = "''My_App''" and e = sample_env and line = "''My App''"
      and later = "[''good-name'']" and name = None and err = PromptClosed and w = sample_world
      and options = yes_options]
    name_validation [where e = at_prompt and n' = "''good-name''"]
    a b c d p q
  show ?thesis by simp
qed

subsection \<open>The paths the Name Rewriter leaves alone (C9)\<close>

text \<open>\<open>replace\<close> writes to the files it has found and to no other, and makes no new entry.\<close>

lemma entry_File_key: "entry fls p = Some (File c) \<Longrightarrow> p \<in> set (map fst fls)"
proof -
  assume "entry fls p = Some (File c)"
  then have "map_of fls p = Some (File c)"
    by (cases "map_of fls p") (auto simp add: entry_def split: if_splits)
  then have "(p, File c) \<in> set fls"
    by (rule map_of_SomeD)
  then show ?thesis
    by force
qed

lemma map_of_replaceInOne:
  "replaceInOne from to p fls = Inr fls' \<Longrightarrow> q \<noteq> p \<Longrightarrow> map_of fls' q = map_of fls q"
  by (auto simp add: replaceInOne_def update_conv' split: option.splits node.splits)

lemma keys_replaceInOne: "replaceInOne from to p fls = Inr fls' \<Longrightarrow> map fst fls' = map fst fls"
  by (auto simp add: replaceInOne_def update_keys split: option.splits node.splits dest: entry_File_key)

lemma entry_cong: "map_of fls' q = map_of fls q \<Longrightarrow> map fst fls' = map fst fls \<Longrightarrow> entry fls' q = entry fls q"
  by (simp add: entry_def)

lemma keys_replaceAll: "map fst (snd (replaceAll from to ps fls)) = map fst fls"
proof (induction ps arbitrary: fls)
  case Nil
  then show ?case by simp
next
  case (Cons p ps)
  show ?case
  proof (cases "replaceInOne from to p fls")
    case (Inl err)
    with Cons.IH [of fls] show ?thesis by simp
  next
    case (Inr fls')
    with Cons.IH [of fls'] keys_replaceInOne [OF Inr] show ?thesis by simp
  qed
qed

lemma map_of_replaceAll:
  "q \<notin> set ps \<Longrightarrow> map_of (snd (replaceAll from to ps fls)) q = map_of fls q"
proof (induction ps arbitrary: fls)
  case Nil
  then show ?case by simp
next
  case (Cons p ps)
  then have q: "q \<noteq> p" "q \<notin> set ps"
    by simp_all
  show ?case
  proof (cases "replaceInOne from to p fls")
    case (Inl err)
    with Cons.IH [OF q(2), of fls] show ?thesis by simp
  next
    case (Inr fls')
    with Cons.IH [OF q(2), of fls'] map_of_replaceInOne [OF Inr q(1)] show ?thesis by simp
  qed
qed

lemma keys_replaceInFile: "map fst (snd (replaceInFile e fls ps from to)) = map fst fls"
  by (simp add: replaceInFile_def keys_replaceAll split: sum.splits option.splits)

text \<open>A path without characters of a pattern finds itself or nothing.\<close>

lemma globAsync_literal: "literal_path p \<Longrightarrow> q \<in> set (globAsync e fls p) \<Longrightarrow> q = p"
  by (simp add: globAsync_def split: if_splits)

lemma getPathsAsync_found:
  "getPathsAsync e fls ps = Inr found \<Longrightarrow> q \<in> set found \<Longrightarrow> \<exists>p \<in> set ps. q \<in> set (globAsync e fls p)"
  by (auto simp add: getPathsAsync_def split: list.splits)

lemma getPathsAsync_literal:
  assumes "getPathsAsync e fls ps = Inr found" and "list_all literal_path ps"
  shows "set found \<subseteq> set ps"
proof
  fix q
  assume "q \<in> set found"
  from getPathsAsync_found [OF assms(1) this] obtain p where p: "p \<in> set ps" "q \<in> set (globAsync e fls p)"
    by blast
  from assms(2) p(1) have "literal_path p"
    by (simp add: list_all_iff)
  from globAsync_literal [OF this p(2)] p(1) show "q \<in> set ps"
    by simp
qed

lemma replaceInFile_frame:
  assumes "list_all literal_path ps" and "q \<notin> set ps"
  shows "entry (snd (replaceInFile e fls ps from to)) q = entry fls q"
proof (rule entry_cong)
  show "map fst (snd (replaceInFile e fls ps from to)) = map fst fls"
    by (rule keys_replaceInFile)
  show "map_of (snd (replaceInFile e fls ps from to)) q = map_of fls q"
  proof (cases "getPathsAsync e fls ps")
    case (Inl err)
    then show ?thesis by (simp add: replaceInFile_def)
  next
    case (Inr found)
    from getPathsAsync_literal [OF Inr assms(1)] assms(2) have "q \<notin> set found"
      by blast
    then have "map_of (snd (replaceAll from to found fls)) q = map_of fls q"
      and "\<And>done. map_of (snd (replaceAll from to (filter done found) fls)) q = map_of fls q"
      by (simp_all add: map_of_replaceAll)
    with Inr show ?thesis
      by (simp add: replaceInFile_def split: option.splits)
  qed
qed

text \<open>What \<open>glob\<close> lists is not ignored, and a longer ignore list lists less.\<close>

lemma glob_found:
  "glob e fls pat dir ign nodir = Inr found \<Longrightarrow> rel \<in> set found \<Longrightarrow> \<not> ignored ign rel \<and> \<not> hidden rel"
  by (auto simp add: glob_def split: if_splits)

lemma glob_fewer:
  "glob e fls pat dir (ign @ extra) True = Inr found' \<Longrightarrow>
     \<exists>found. glob e fls pat dir ign False = Inr found \<and> set found' \<subseteq> set found"
  by (auto simp add: glob_def ignored_def split: if_splits)

lemma replaceProjectName_frame:
  assumes "ignored [''node_modules/**'', ''dist/**'', ''out/**'', ''.git/**'', ''*.log''] rel"
    and "\<forall>found. glob e fls ''**/*'' p [''node_modules/**'', ''dist/**'', ''out/**'', ''.git/**'', ''*.log''] False
            = Inr found \<longrightarrow> list_all (\<lambda>file. literal_path (p @ file)) found"
  shows "entry (snd (replaceProjectName e fls p n)) (p @ rel) = entry fls (p @ rel)"
proof (cases "glob e fls ''**/*'' p [''node_modules/**'', ''dist/**'', ''out/**'', ''.git/**'', ''*.log''] False")
  case (Inl err)
  then show ?thesis by (simp add: replaceProjectName_def)
next
  case (Inr found)
  with assms(2) have l: "list_all literal_path (map (\<lambda>file. p @ file) found)"
    by (simp add: list_all_iff)
  from assms(1) Inr have "p @ rel \<notin> set (map (\<lambda>file. p @ file) found)"
    by (auto dest: glob_found)
  from replaceInFile_frame [OF l this] Inr show ?thesis
    by (simp add: replaceProjectName_def)
qed

lemma replaceProjectName_wk_frame:
  assumes "ignored ([''node_modules/**'', ''dist/**'', ''out/**'', ''.git/**'', ''*.log''] @ [''package.json'']) rel"
    and "\<forall>found. glob e (files w) ''**/*'' p [''node_modules/**'', ''dist/**'', ''out/**'', ''.git/**'', ''*.log''] False
            = Inr found \<longrightarrow> list_all (\<lambda>file. literal_path (p @ file)) found"
  shows "entry (files (replaceProjectName_wk e w p n)) (p @ rel) = entry (files w) (p @ rel)"
proof (cases "glob e (files w) ''**/*'' p
    ([''node_modules/**'', ''dist/**'', ''out/**'', ''.git/**'', ''*.log''] @ [''package.json'']) True")
  case (Inl err)
  then show ?thesis by (simp add: replaceProjectName_wk_def)
next
  case (Inr found')
  from glob_fewer [OF Inr] obtain found where
    f: "glob e (files w) ''**/*'' p [''node_modules/**'', ''dist/**'', ''out/**'', ''.git/**'', ''*.log''] False
          = Inr found" "set found' \<subseteq> set found"
    by blast
  with assms(2) have l: "list_all literal_path (map (\<lambda>file. p @ file) found')"
    by (auto simp add: list_all_iff)
  from assms(1) Inr have "p @ rel \<notin> set (map (\<lambda>file. p @ file) found')"
    by (auto dest: glob_found)
  from replaceInFile_frame [OF l this, of e "files w" from_patterns_wk "to_replacements n"] Inr
  show ?thesis
    by (auto simp add: replaceProjectName_wk_def split: prod.splits option.splits)
qed

lemma path_match_globstar: "path_match [''**''] rel"
  by (induction rel) simp_all

lemma segment_match_log: "segment_match ''*.log'' (stem @ ''.log'')"
  by (induction stem) simp_all

lemma ignored_directory:
  "d \<in> {''node_modules'', ''dist'', ''out'', ''.git''} \<Longrightarrow>
     ignored ([''node_modules/**'', ''dist/**'', ''out/**'', ''.git/**'', ''*.log''] @ extra) (d # rest)"
  by (auto simp add: ignored_def minimatch_def segments_def path_match_globstar)

lemma ignored_log:
  "ignored ([''node_modules/**'', ''dist/**'', ''out/**'', ''.git/**'', ''*.log''] @ extra) [stem @ ''.log'']"
  using segment_match_log [of stem]
  by (simp add: ignored_def minimatch_def segments_def)

lemma ignored_manifest:
  "ignored ([''node_modules/**'', ''dist/**'', ''out/**'', ''.git/**'', ''*.log''] @ [''package.json''])
     [''package.json'']"
  by (simp add: ignored_def minimatch_def segments_def)

text \<open>
  The ignore patterns are read from the project directory: \<open>node_modules/**\<close> is the
  directory \<open>node_modules\<close> in the project directory, \<open>*.log\<close> a log file in it. A log file,
  a \<open>node_modules\<close> directory and a \<open>package.json\<close> in a sub-directory are not ignored, and
  the welcome-kit version rewrites them. In \<open>src/index.ts\<close> the sub-directory itself is
  listed, \<open>replace\<close> rejects and no file is rewritten.
\<close>

theorem nested_excluded_paths_rewritten:
  "entry nested_files [''home'', ''dev'', ''app'', ''sub'', ''x.log''] = Some (File ''era'')
   \<and> entry nested_files [''home'', ''dev'', ''app'', ''a'', ''node_modules'', ''b.js''] = Some (File ''era'')
   \<and> entry nested_files [''home'', ''dev'', ''app'', ''sub'', ''package.json''] = Some (File ''era'')
   \<and> entry (files (replaceProjectName_wk sample_env (sample_world\<lparr>files := nested_files\<rparr>)
                    [''home'', ''dev'', ''app''] ''demo-app''))
        [''home'', ''dev'', ''app'', ''sub'', ''x.log''] = Some (File ''demo-app'')
   \<and> entry (files (replaceProjectName_wk sample_env (sample_world\<lparr>files := nested_files\<rparr>)
                    [''home'', ''dev'', ''app''] ''demo-app''))
        [''home'', ''dev'', ''app'', ''a'', ''node_modules'', ''b.js''] = Some (File ''demo-app'')
   \<and> entry (files (replaceProjectName_wk sample_env (sample_world\<lparr>files := nested_files\<rparr>)
                    [''home'', ''dev'', ''app''] ''demo-app''))
        [''home'', ''dev'', ''app'', ''sub'', ''package.json''] = Some (File ''demo-app'')
   \<and> replaceProjectName sample_env nested_files [''home'', ''dev'', ''app''] ''demo-app''
       = (Some (NoFilesMatch [''home'', ''dev'', ''app'', ''src'']), nested_files)"
  by code_simp

text \<open>
  C9, amended: let no path that \<open>glob\<close> lists in the project have a character with a
  meaning in a glob pattern. Then a path whose first segment below the project
  directory is \<open>node_modules\<close>, \<open>dist\<close>, \<open>out\<close> or \<open>.git\<close>, and a \<open>*.log\<close> file in the project
  directory, has the same entry before and after \<open>replaceProjectName\<close>, in both versions;
  so has the \<open>package.json\<close> of the project directory in the welcome-kit version, which
  ignores it. This holds also when \<open>glob\<close> or \<open>replace\<close> fails.
\<close>

theorem rewriter_leaves_excluded_paths:
  assumes "rel = d # rest \<and> d \<in> {''node_modules'', ''dist'', ''out'', ''.git''}
           \<or> rel = [stem @ ''.log'']"
    and "\<forall>found. glob e fls ''**/*'' p [''node_modules/**'', ''dist/**'', ''out/**'', ''.git/**'', ''*.log''] False
            = Inr found \<longrightarrow> list_all (\<lambda>file. literal_path (p @ file)) found"
  shows "entry (snd (replaceProjectName e fls p n)) (p @ rel) = entry fls (p @ rel)
       \<and> entry (files (replaceProjectName_wk e (w\<lparr>files := fls\<rparr>) p n)) (p @ rel) = entry fls (p @ rel)
       \<and> entry (files (replaceProjectName_wk e (w\<lparr>files := fls\<rparr>) p n)) (p @ [''package.json''])
           = entry fls (p @ [''package.json''])"
proof -
  from assms(1) have a: "ignored [''node_modules/**'', ''dist/**'', ''out/**'', ''.git/**'', ''*.log''] rel"
    and b: "ignored ([''node_modules/**'', ''dist/**'', ''out/**'', ''.git/**'', ''*.log''] @ [''package.json'']) rel"
    using ignored_directory [where extra = "[]"] ignored_log [where extra = "[]"]
      ignored_directory [where extra = "[''package.json'']"] ignored_log [where extra = "[''package.json'']"]
    by auto
  from assms(2) have l: "\<forall>found. glob e (files (w\<lparr>files := fls\<rparr>)) ''**/*'' p
        [''node_modules/**'', ''dist/**'', ''out/**'', ''.git/**'', ''*.log''] False
      = Inr found \<longrightarrow> list_all (\<lambda>file. literal_path (p @ file)) found"
    by simp
  from replaceProjectName_frame [OF a assms(2)] replaceProjectName_wk_frame [OF b l]
    replaceProjectName_wk_frame [OF ignored_manifest l]
  show ?thesis by simp
qed

theorem rewriter_leaves_excluded_paths_witness:
  "[''node_modules'', ''pkg'', ''index.js''] = ''node_modules'' # [''pkg'', ''index.js'']
   \<and> ''node_modules'' \<in> {''node_modules'', ''dist'', ''out'', ''.git''}
   \<and> [''debug.log''] = [''debug'' @ ''.log'']
   \<and> glob sample_env project_files ''**/*'' [''home'', ''dev'', ''app'']
        [''node_modules/**'', ''dist/**'', ''out/**'', ''.git/**'', ''*.log''] False
       = Inr [[''package.json''], [''main.ts'']]
   \<and> list_all (\<lambda>file. literal_path ([''home'', ''dev'', ''app''] @ file)) [[''package.json''], [''main.ts'']]
   \<and> entry (snd (replaceProjectName sample_env project_files [''home'', ''dev'', ''app''] ''demo-app''))
         [''home'', ''dev'', ''app'', ''node_modules'', ''pkg'', ''index.js''] = Some (File ''era'')
   \<and> entry (snd (replaceProjectName sample_env project_files [''home'', ''dev'', ''app''] ''demo-app''))
         [''home'', ''dev'', ''app'', ''debug.log''] = Some (File ''era'')
   \<and> entry (files (replaceProjectName_wk sample_env (sample_world\<lparr>files := project_files\<rparr>)
                     [''home'', ''dev'', ''app''] ''demo-app''))
         [''home'', ''dev'', ''app'', ''node_modules'', ''pkg'', ''index.js''] = Some (File ''era'')
   \<and> entry (files (replaceProjectName_wk sample_env (sample_world\<lparr>files := project_files\<rparr>)
                     [''home'', ''dev'', ''app''] ''demo-app''))
         [''home'', ''dev'', ''app'', ''package.json''] = entry project_files [''home'', ''dev'', ''app'', ''package.json'']
   \<and> entry (snd (replaceProjectName sample_env project_files [''home'', ''dev'', ''app''] ''demo-app''))
         [''home'', ''dev'', ''app'', ''main.ts''] = Some (File ''demo-app'')"
proof -
  let ?p = "[''home'', ''dev'', ''app'']"
  have h1: "[''node_modules'', ''pkg'', ''index.js''] = ''node_modules'' # [''pkg'', ''index.js'']
      \<and> ''node_modules'' \<in> {''node_modules'', ''dist'', ''out'', ''.git''}
      \<or> [''node_modules'', ''pkg'', ''index.js''] = [''debug'' @ ''.log'']"
    by simp
  have h2: "[''debug.log''] = ''node_modules'' # [] \<and> ''node_modules'' \<in> {''node_modules'', ''dist'', ''out'', ''.git''}
      \<or> [''debug.log''] = [''debug'' @ ''.log'']"
    by simp
  have g: "glob sample_env project_files ''**/*'' ?p
        [''node_modules/**'', ''dist/**'', ''out/**'', ''.git/**'', ''*.log''] False
       = Inr [[''package.json''], [''main.ts'']]"
    by code_simp
  have l: "list_all (\<lambda>file. literal_path (?p @ file)) [[''package.json''], [''main.ts'']]"
    by code_simp
  from g l have a: "\<forall>found. glob sample_env project_files ''**/*'' ?p
        [''node_modules/**'', ''dist/**'', ''out/**'', ''.git/**'', ''*.log''] False
      = Inr found \<longrightarrow> list_all (\<lambda>file. literal_path (?p @ file)) found"
    by simp
  have e1: "entry project_files (?p @ [''node_modules'', ''pkg'', ''index.js'']) = Some (File ''era'')"
    and e2: "entry project_files (?p @ [''debug.log'']) = Some (File ''era'')"
    by code_simp+
  have e3: "entry (snd (replaceProjectName sample_env project_files ?p ''demo-app''))
         [''home'', ''dev'', ''app'', ''main.ts''] = Some (File ''demo-app'')"
    by code_simp
  from rewriter_leaves_excluded_paths [OF h1 a, of "''demo-app''" sample_world]
    rewriter_leaves_excluded_paths [OF h2 a, of "''demo-app''" sample_world]
    g l e1 e2 e3
  show ?thesis by simp
qed

subsection \<open>The welcome kit switched off (C7)\<close>

text \<open>
  \<open>removeWelcomeKit\<close> catches its own errors. When \<open>fs.remove\<close> fails, the run still
  exits with status 0 and prints the success message, the directory of the welcome kit
  is still there and \<open>app/app.tsx\<close> is the one of the template. When nothing fails but
  the template has no \<open>app/app.tsx\<close>, reading it throws before the fallback content is
  written: the run exits with status 0 and the project has no \<open>app/app.tsx\<close>.
\<close>

theorem welcome_kit_stays_when_remove_fails:
  "\<not> welcomeKit (getConfig_wk broken_remove ask_options)
   \<and> fst (createApp_wk broken_remove sample_world (Some ''demo-app'') ask_options) = 0
   \<and> Log ''Project created successfully!''
        \<in> set (console (snd (createApp_wk broken_remove sample_world (Some ''demo-app'') ask_options)))
   \<and> pathExists (files (snd (createApp_wk broken_remove sample_world (Some ''demo-app'') ask_options)))
        [''home'', ''dev'', ''demo-app'', ''app'', ''components'', ''welcome'']
   \<and> entry (files (snd (createApp_wk broken_remove sample_world (Some ''demo-app'') ask_options)))
        [''home'', ''dev'', ''demo-app'', ''app'', ''app.tsx'']
       \<noteq> Some (File newAppContent)
   \<and> \<not> welcomeKit (getConfig_wk without_kit ask_options)
   \<and> fst (createApp_wk without_kit bare_world (Some ''demo-app'') ask_options) = 0
   \<and> Log ''Project created successfully!''
        \<in> set (console (snd (createApp_wk without_kit bare_world (Some ''demo-app'') ask_options)))
   \<and> entry (files (snd (createApp_wk without_kit bare_world (Some ''demo-app'') ask_options)))
        [''home'', ''dev'', ''demo-app'', ''app'', ''app.tsx''] = None"
  by code_simp

text \<open>
  The project path is normalised, so the paths joined from it are the plain
  concatenations. The fallback content has none of the three tokens in it, so the Name
  Rewriter writes it back as it is.
\<close>

lemma normalize_onto_clean:
  "''.'' \<notin> set acc \<Longrightarrow> ''..'' \<notin> set acc \<Longrightarrow>
     ''.'' \<notin> set (normalize_onto acc ss) \<and> ''..'' \<notin> set (normalize_onto acc ss)"
  by (induction ss arbitrary: acc) (auto dest: in_set_butlastD)

lemma normalize_onto_id:
  "''.'' \<notin> set ss \<Longrightarrow> ''..'' \<notin> set ss \<Longrightarrow> normalize_onto acc ss = acc @ ss"
  by (induction ss arbitrary: acc) auto

lemma path_resolve_clean: "''.'' \<notin> set (path_resolve base name) \<and> ''..'' \<notin> set (path_resolve base name)"
  by (simp add: path_resolve_def normalize_onto_clean)

lemma path_join_resolved:
  "''.'' \<notin> set parts \<Longrightarrow> ''..'' \<notin> set parts \<Longrightarrow> concat (map segments parts) = parts \<Longrightarrow>
     path_join (path_resolve base name) parts = path_resolve base name @ parts"
  using path_resolve_clean [of base name]
  by (simp add: path_join_def normalize_onto_id)

lemma replace_from_no_occurrence:
  "\<not> sublist (token r) s \<Longrightarrow> replace_from r to passed s = s"
proof (induction s arbitrary: passed)
  case Nil
  then show ?case by simp
next
  case (Cons c cs)
  from Cons.prems have np: "\<not> prefix (token r) (c # cs)" and ns: "\<not> sublist (token r) cs"
    by (simp_all add: sublist_Cons_right)
  from np have "\<not> matches_at r passed (c # cs)"
    by (cases r) simp_all
  with Cons.IH [OF ns] show ?case
    by simp
qed

lemma newAppContent_has_no_token:
  "\<not> sublist ''era'' newAppContent"
  "\<not> sublist ''ElectronReactApp'' newAppContent"
  "\<not> sublist ''electron-react-app'' newAppContent"
  by code_simp+

lemma newAppContent_fixed:
  "makeReplacements from_patterns_wk (to_replacements n) newAppContent = newAppContent"
  by (simp add: makeReplacements_def from_patterns_wk_def to_replacements_def js_replace_def
      replace_from_no_occurrence newAppContent_has_no_token)


lemma removeWelcomeKit_quiet:
  assumes "\<forall>err. Log_warn ''Warning: Could not remove welcome kit:'' err \<notin> set (console (removeWelcomeKit e w P))"
  shows "files (removeWelcomeKit e w P)
       = AList.update (path_join P [''app'', ''app.tsx'']) (File newAppContent)
           (filter (\<lambda>qn. \<not> prefix (path_join P [''app'', ''components'', ''welcome'']) (fst qn)) (files w))"
  using assms
  by (auto simp add: removeWelcomeKit_def remove_def writeFile_def
      split: prod.splits option.splits sum.splits if_splits)

lemma updatePackageJson_writes:
  "updatePackageJson e fls P n = Inr fls' \<Longrightarrow>
     \<exists>content. fls' = AList.update (path_join P [''package.json'']) (File content) fls"
  by (auto simp add: updatePackageJson_def writeJson_def writeFile_def split: sum.splits if_splits)

lemma replaceAll_fixed:
  "makeReplacements from to c = c \<Longrightarrow> map_of fls A = Some (File c) \<Longrightarrow>
     map_of (snd (replaceAll from to ps fls)) A = Some (File c)"
proof (induction ps arbitrary: fls)
  case Nil
  then show ?case by simp
next
  case (Cons p ps)
  show ?case
  proof (cases "replaceInOne from to p fls")
    case (Inl err)
    with Cons.IH [OF Cons.prems] show ?thesis by simp
  next
    case (Inr fls')
    have "map_of fls' A = Some (File c)"
    proof (cases "p = A")
      case True
      with Cons.prems Inr show ?thesis
        by (auto simp add: replaceInOne_def entry_def update_conv')
    next
      case False
      with Cons.prems map_of_replaceInOne [OF Inr, of A] show ?thesis
        by simp
    qed
    with Cons.IH [OF Cons.prems(1), of fls'] Inr show ?thesis by simp
  qed
qed

lemma replaceInFile_fixed:
  "makeReplacements from to c = c \<Longrightarrow> map_of fls A = Some (File c) \<Longrightarrow>
     map_of (snd (replaceInFile e fls ps from to)) A = Some (File c)"
  by (simp add: replaceInFile_def replaceAll_fixed split: sum.splits option.splits)

lemma replaceProjectName_wk_keys:
  "map fst (files (replaceProjectName_wk e w P n)) = map fst (files w)"
proof (cases "glob e (files w) ''**/*'' P
    [''node_modules/**'', ''dist/**'', ''out/**'', ''.git/**'', ''*.log'', ''package.json''] True")
  case (Inl err)
  then show ?thesis by (simp add: replaceProjectName_wk_def)
next
  case (Inr found)
  from keys_replaceInFile [of e "files w" "map (\<lambda>file. P @ file) found" from_patterns_wk "to_replacements n"]
    Inr
  show ?thesis
    by (auto simp add: replaceProjectName_wk_def split: prod.splits option.splits)
qed

lemma replaceProjectName_wk_fixed:
  assumes "map_of (files w) A = Some (File newAppContent)"
  shows "map_of (files (replaceProjectName_wk e w P n)) A = Some (File newAppContent)"
proof (cases "glob e (files w) ''**/*'' P
    [''node_modules/**'', ''dist/**'', ''out/**'', ''.git/**'', ''*.log'', ''package.json''] True")
  case (Inl err)
  with assms show ?thesis by (simp add: replaceProjectName_wk_def)
next
  case (Inr found)
  from replaceInFile_fixed [OF newAppContent_fixed [of n] assms, where e = e
      and ps = "map (\<lambda>file. P @ file) found"] Inr assms
  show ?thesis
    by (auto simp add: replaceProjectName_wk_def split: prod.splits option.splits)
qed

lemma console_replaceProjectName_wk:
  "set (console w) \<subseteq> set (console (replaceProjectName_wk e w P n))"
  by (auto simp add: replaceProjectName_wk_def split: sum.splits prod.splits option.splits)

text \<open>
  C7, amended: when the welcome kit is switched off, \<open>generateProject\<close> succeeds and no
  warning of \<open>removeWelcomeKit\<close> has been printed, the generated tree has nothing at or
  below \<open>app/components/welcome\<close>, and \<open>app/app.tsx\<close> is exactly \<open>newAppContent\<close>.
\<close>

theorem welcome_kit_removed:
  assumes gen: "generateProject_wk e w projectName (path_resolve (cwd e) projectName) config = (None, w')"
    and off: "\<not> welcomeKit config"
    and quiet: "\<forall>err. Log_warn ''Warning: Could not remove welcome kit:'' err \<notin> set (console w')"
  shows "\<not> pathExists (files w') (path_resolve (cwd e) projectName @ [''app'', ''components'', ''welcome''])
       \<and> entry (files w') (path_resolve (cwd e) projectName @ [''app'', ''app.tsx''])
           = Some (File newAppContent)"
proof -
  let ?P = "path_resolve (cwd e) projectName"
  let ?W = "?P @ [''app'', ''components'', ''welcome'']"
  let ?A = "?P @ [''app'', ''app.tsx'']"
  let ?M = "?P @ [''package.json'']"
  have pW: "path_join ?P [''app'', ''components'', ''welcome''] = ?W"
    and pA: "path_join ?P [''app'', ''app.tsx''] = ?A"
    and pM: "path_join ?P [''package.json''] = ?M"
    by (simp_all add: path_join_resolved segments_def)
  from gen off obtain fls fls' w2 where
    w2: "w2 = removeWelcomeKit e (say (Spinner_start ''Creating project...'') w\<lparr>files := fls\<rparr>) ?P"
    and upd: "updatePackageJson e (files w2) ?P projectName = Inr fls'"
    and w': "w' = say (Spinner_succeed ''Project created successfully!'')
                    (replaceProjectName_wk e (w2\<lparr>files := fls'\<rparr>) ?P projectName)"
    by (auto simp add: generateProject_wk_def Let_def split: prod.splits option.splits sum.splits)
  have "set (console w2) \<subseteq> set (console w')"
    using console_replaceProjectName_wk [of "w2\<lparr>files := fls'\<rparr>" e ?P projectName]
    by (auto simp add: w')
  with quiet have "\<forall>err. Log_warn ''Warning: Could not remove welcome kit:'' err \<notin> set (console w2)"
    by blast
  from removeWelcomeKit_quiet [OF this [unfolded w2]]
  have f2: "files w2 = AList.update ?A (File newAppContent)
              (filter (\<lambda>qn. \<not> prefix ?W (fst qn)) fls)"
    by (simp add: w2 pW pA)
  from updatePackageJson_writes [OF upd] obtain content where
    f': "fls' = AList.update ?M (File content) (files w2)"
    by (auto simp add: pM)
  have keys: "\<forall>q \<in> set (map fst fls'). \<not> prefix ?W q"
    by (auto simp add: f' f2 update_keys)
  have app: "map_of fls' ?A = Some (File newAppContent)"
    by (simp add: f' f2 update_conv')
  have keys': "\<forall>q \<in> set (map fst (files w')). \<not> prefix ?W q"
    using keys by (simp add: w' replaceProjectName_wk_keys)
  have app': "map_of (files w') ?A = Some (File newAppContent)"
    using app by (simp add: w' replaceProjectName_wk_fixed)
  from keys' have "map_of (files w') ?W = None"
    by (auto simp add: map_of_eq_None_iff)
  with keys' have "entry (files w') ?W = None"
    by (auto simp add: entry_def list_ex_iff)
  moreover from app' have "entry (files w') ?A = Some (File newAppContent)"
    by (simp add: entry_def)
  ultimately show ?thesis
    by (simp add: pathExists_def)
qed


theorem welcome_kit_removed_witness:
  "generateProject_wk without_kit sample_world ''demo-app'' (path_resolve (cwd without_kit) ''demo-app'')
       (getConfig_wk without_kit ask_options)
     = (None, snd (generateProject_wk without_kit sample_world ''demo-app''
                     (path_resolve (cwd without_kit) ''demo-app'') (getConfig_wk without_kit ask_options)))
   \<and> \<not> welcomeKit (getConfig_wk without_kit ask_options)
   \<and> console (snd (generateProject_wk without_kit sample_world ''demo-app''
                     (path_resolve (cwd without_kit) ''demo-app'') (getConfig_wk without_kit ask_options)))
       = [Spinner_start ''Creating project...'', Spinner_succeed ''Project created successfully!'']
   \<and> \<not> pathExists (files (snd (generateProject_wk without_kit sample_world ''demo-app''
                     (path_resolve (cwd without_kit) ''demo-app'') (getConfig_wk without_kit ask_options))))
          (path_resolve (cwd without_kit) ''demo-app'' @ [''app'', ''components'', ''welcome''])
   \<and> entry (files (snd (generateProject_wk without_kit sample_world ''demo-app''
                     (path_resolve (cwd without_kit) ''demo-app'') (getConfig_wk without_kit ask_options))))
          (path_resolve (cwd without_kit) ''demo-app'' @ [''app'', ''app.tsx''])
       = Some (File newAppContent)
   \<and> pathExists (files sample_world) [''opt'', ''tool'', ''dist'', ''template'', ''app'', ''components'', ''welcome'']"
proof -
  let ?g = "generateProject_wk without_kit sample_world ''demo-app''
              (path_resolve (cwd without_kit) ''demo-app'') (getConfig_wk without_kit ask_options)"
  have "fst ?g = None"
    by code_simp
  then have gen: "?g = (None, snd ?g)"
    by (simp add: prod_eq_iff)
  have off: "\<not> welcomeKit (getConfig_wk without_kit ask_options)"
    by (simp add: getConfig_wk_def ask_options_def without_kit_def)
  have con: "console (snd ?g)
      = [Spinner_start ''Creating project...'', Spinner_succeed ''Project created successfully!'']"
    by code_simp
  then have quiet: "\<forall>err. Log_warn ''Warning: Could not remove welcome kit:'' err \<notin> set (console (snd ?g))"
    by simp
  have there: "pathExists (files sample_world) [''opt'', ''tool'', ''dist'', ''template'', ''app'', ''components'', ''welcome'']"
    by code_simp
  from welcome_kit_removed [OF gen off quiet] gen off con there show ?thesis
    by blast
qed

subsection \<open>The name in the manifest (C2)\<close>

text \<open>
  C2: after a successful run the \<open>name\<close> of the generated \<open>package.json\<close> should be the
  project name. In \<open>src/index.ts\<close> the Name Rewriter runs over \<open>package.json\<close> after
  \<open>updatePackageJson\<close> has written it, and \<open>/era/g\<close> matches inside the name: for
  \<open>camera\<close> the manifest ends with the name \<open>camcamera\<close>. The welcome-kit version, which
  ignores \<open>package.json\<close> in the rewriter, leaves \<open>camera\<close>.
\<close>

theorem manifest_name_rewritten:
  "valid_name ''camera''
   \<and> fst (createApp sample_env sample_world (Some ''camera'') yes_options) = 0
   \<and> readJson sample_env ReadManifest
        (files (snd (createApp sample_env sample_world (Some ''camera'') yes_options)))
        [''home'', ''dev'', ''camera'', ''package.json'']
       = Inr (JObj [(''name'', JStr ''camcamera''), (''version'', JStr ''1.0.0''),
                    (''description'', JStr ''A modern Electron application built with camcamera'')])
   \<and> readJson sample_env ReadManifest
        (files (snd (createApp_wk sample_env sample_world (Some ''camera'') yes_options)))
        [''home'', ''dev'', ''camera'', ''package.json'']
       = Inr (JObj [(''name'', JStr ''camera''), (''version'', JStr ''1.0.0''),
                    (''description'', JStr ''A modern Electron application built with camera'')])"
  by code_simp

subsection \<open>How a text is scanned and rewritten\<close>









































subsection \<open>Tokens left after the rewriting (C3)\<close>




subsection \<open>The capitalised project name (C6)\<close>







end
